theory Spec2Isabelle
  imports Complex_Main "HOL-Library.Sublist"
begin

chapter \<open>Second Brain: the filing state machine and its helpers\<close>

text \<open>
  A shallow embedding of the TypeScript sources: the similarity score and the name search
  of \<^verbatim>\<open>services/search.ts\<close>, the webhook signature check of
  \<^verbatim>\<open>services/slack.ts\<close>, the thread-intent call of
  \<^verbatim>\<open>services/openrouter.ts\<close>, and the capture and thread-reply paths of
  \<^verbatim>\<open>agent.ts\<close>.

  Numbers are modelled as reals (lengths and counts as naturals), so the rounding of
  IEEE doubles is not part of the model.
\<close>

section \<open>Strings\<close>

text \<open>
  A string is the list of its code units. A \<^typ>\<open>char\<close> has eight bits, so the model
  covers the code units below 256 (ASCII and Latin-1), and the built-ins below are written
  out for exactly that range.
\<close>

definition isWhiteSpace :: "char \<Rightarrow> bool" where
  \<comment> \<open>What \<^verbatim>\<open>\s\<close>, \<^verbatim>\<open>trim\<close> and \<^verbatim>\<open>parseInt\<close> skip: TAB, LF, VT, FF, CR, space, NBSP.\<close>
  "isWhiteSpace c = (c \<in> set [CHR 0x09, CHR 0x0A, CHR 0x0B, CHR 0x0C, CHR 0x0D, CHR 0x20, CHR 0xA0])"

definition toLowerCase_char :: "char \<Rightarrow> char" where
  "toLowerCase_char c =
     (let n = (of_char c :: nat) in
      if (65 \<le> n \<and> n \<le> 90) \<or> (192 \<le> n \<and> n \<le> 222 \<and> n \<noteq> 215)
      then char_of (n + 32) else c)"

definition toUpperCase_char :: "char \<Rightarrow> char" where
  \<comment> \<open>Only ever applied to the first letter of a category name.\<close>
  "toUpperCase_char c =
     (let n = (of_char c :: nat) in
      if (97 \<le> n \<and> n \<le> 122) \<or> (224 \<le> n \<and> n \<le> 254 \<and> n \<noteq> 247)
      then char_of (n - 32) else c)"

definition toLowerCase :: "string \<Rightarrow> string" where
  "toLowerCase s = map toLowerCase_char s"

fun includes_str :: "string \<Rightarrow> string \<Rightarrow> bool" where
  \<comment> \<open>\<^verbatim>\<open>s.includes(t)\<close>: \<open>t\<close> occurs in \<open>s\<close> as a contiguous run.\<close>
  "includes_str [] t = (t = [])"
| "includes_str (c # cs) t = (prefix t (c # cs) \<or> includes_str cs t)"

fun split_from :: "(char \<Rightarrow> bool) \<Rightarrow> bool \<Rightarrow> string \<Rightarrow> bool \<Rightarrow> string \<Rightarrow> string list" where
  \<comment> \<open>\<open>split_from sep greedy cur in_sep rest\<close>: \<open>cur\<close> is the piece being read (reversed);
      \<open>in_sep\<close> says the previous code unit was a separator that a greedy pattern
      (\<^verbatim>\<open>/\s+/\<close>) extends.\<close>
  "split_from sep greedy cur in_sep [] = [rev cur]"
| "split_from sep greedy cur in_sep (c # cs) =
     (if sep c then
        (if greedy \<and> in_sep then split_from sep greedy cur True cs
         else rev cur # split_from sep greedy [] True cs)
      else split_from sep greedy (c # cur) False cs)"

definition split_whitespace :: "string \<Rightarrow> string list" where
  \<comment> \<open>\<^verbatim>\<open>s.split(/\s+/)\<close>\<close>
  "split_whitespace s = split_from isWhiteSpace True [] False s"

definition split_comma :: "string \<Rightarrow> string list" where
  \<comment> \<open>\<^verbatim>\<open>s.split(',')\<close>\<close>
  "split_comma s = split_from (\<lambda>c. c = CHR '','') False [] False s"

definition trim :: "string \<Rightarrow> string" where
  "trim s = rev (dropWhile isWhiteSpace (rev (dropWhile isWhiteSpace s)))"

fun join :: "string \<Rightarrow> string list \<Rightarrow> string" where
  \<comment> \<open>\<^verbatim>\<open>xs.join(sep)\<close>\<close>
  "join sep [] = []"
| "join sep [x] = x"
| "join sep (x # y # ys) = x @ sep @ join sep (y # ys)"

section \<open>Similarity score (services/search.ts)\<close>

definition calculateSimilarity :: "string \<Rightarrow> string \<Rightarrow> real" where
  "calculateSimilarity str1 str2 =
     (let s1 = toLowerCase str1; s2 = toLowerCase str2 in
      if s1 = s2 then 1
      else if includes_str s1 s2 \<or> includes_str s2 s1 then
        (let longer = max (length s1) (length s2);
             shorter = min (length s1) (length s2)
         in real shorter / real longer)
      else
        (let words1 = split_whitespace s1;
             words2 = split_whitespace s2;
             commonWords = filter (\<lambda>w. list_ex (\<lambda>w2. includes_str w2 w \<or> includes_str w w2) words2) words1
         in if length commonWords > 0
            then real (length commonWords) / real (max (length words1) (length words2)) * 0.8
            else 0))"

definition spec_similarity :: "string \<Rightarrow> string \<Rightarrow> real" where
  \<comment> \<open>The score as the specification words it: the third case is the fraction of the
      query's words that match a word of the candidate, scaled by 0.8.\<close>
  "spec_similarity query candidate =
     (let s1 = toLowerCase query; s2 = toLowerCase candidate in
      if s1 = s2 then 1
      else if includes_str s1 s2 \<or> includes_str s2 s1 then
        real (min (length s1) (length s2)) / real (max (length s1) (length s2))
      else
        (let words1 = split_whitespace s1;
             words2 = split_whitespace s2;
             matching = filter (\<lambda>w. list_ex (\<lambda>w2. includes_str w2 w \<or> includes_str w w2) words2) words1
         in if length matching > 0
            then real (length matching) / real (length words1) * 0.8
            else 0))"

section \<open>Data (types.ts)\<close>

datatype Category = person | project | idea | admin

definition category_string :: "Category \<Rightarrow> string" where
  \<comment> \<open>A category is the string that names it.\<close>
  "category_string c = (case c of person \<Rightarrow> ''person'' | project \<Rightarrow> ''project''
                         | idea \<Rightarrow> ''idea'' | admin \<Rightarrow> ''admin'')"

text \<open>
  \<^verbatim>\<open>CategoryFields\<close> is a union of four interfaces; the code reads members off it through
  casts, whatever the category, so the record holds every member, each optional.
  A \<^verbatim>\<open>null\<close> due date is read like a missing one.
\<close>

record CategoryFields =
  f_name :: "string option"
  f_nicknames :: "string list option"
  f_context :: "string option"
  f_follow_ups :: "string option"
  f_next_action :: "string option"
  f_notes :: "string option"
  f_status :: "string option"
  f_one_liner :: "string option"
  f_due_date :: "string option"

record ClassificationResult =
  category :: Category
  confidence :: real
  name :: string
  fields_c :: CategoryFields

record PotentialDuplicate =
  pd_pageId :: string
  pd_name :: string
  pd_category :: Category
  pd_score :: real

datatype Role = user | assistant

record ThreadMessage =
  role :: Role
  content :: string
  ts :: string

datatype ThreadIntentType =
  correct_category | update_field | add_context | create_related | query | unclear

record Details =
  d_newCategory :: "Category option"
  d_field :: "string option"
  d_value :: "string option"
  d_context :: "string option"
  d_category :: "Category option"
  d_name :: "string option"
  d_fields :: "CategoryFields option"
  d_question :: "string option"

record ThreadIntent =
  intent :: ThreadIntentType
  details :: Details
  i_confidence :: real

record ThreadContext =
  originalMessage :: string
  classification :: ClassificationResult
  notionPageId :: "string option"
  potentialDuplicate :: "PotentialDuplicate option"
  messages :: "ThreadMessage list"
  createdAt :: string

type_synonym threadContexts = "string \<rightharpoonup> ThreadContext"

record SlackMessageEvent =
  ev_channel :: string
  ev_text :: string
  ev_ts :: string
  ev_thread_ts :: "string option"

datatype ButtonAction = category_select | duplicate_resolve | thread_option

datatype Resolution = resolution_update | resolution_new

datatype ThreadOption = option_change_category | option_edit_fields | option_add_context

record ButtonData =
  b_category :: "Category option"
  b_resolution :: "Resolution option"
  b_option :: "ThreadOption option"

record ButtonPayload =
  action :: ButtonAction
  threadTs :: string
  channel :: string
  data :: ButtonData

text \<open>
  A button's \<^verbatim>\<open>value\<close> is \<^verbatim>\<open>btoa(JSON.stringify(payload))\<close>; the model keeps the
  payload itself in that place.
\<close>

record SlackBlockElement =
  e_text :: string
  e_action_id :: string
  e_value :: ButtonPayload
  e_style :: "string option"

datatype SlackBlock =
    section_block string
  | actions_block string "SlackBlockElement list"

text \<open>Property values as they are written to the store, and as a queried page returns them.\<close>

datatype PropertyValue =
    title_value string
  | rich_text_value string
  | select_value string
  | date_value string
  | number_value real
  | multi_select_value "string list"

type_synonym Properties = "(string \<times> PropertyValue) list"

datatype NotionProperty =
    title_property "string list"
  | rich_text_property "string list"
  | select_property "string option"
  | multi_select_property "string list"
  | date_property "string option"
  | number_property "real option"
  | url_property "string option"

record NotionPageWithProperties =
  page_id :: string
  properties :: "(string \<times> NotionProperty) list"

datatype MatchType = exact_match | partial_match | nickname_match

record SearchResult =
  sr_page :: NotionPageWithProperties
  sr_category :: Category
  sr_name :: string
  sr_matchType :: MatchType
  sr_score :: real

record NotionPerson =
  p_name :: string
  p_nicknames :: "string list option"
  p_context :: "string option"
  p_follow_ups :: "string option"
  p_last_touched :: string
  p_tags :: "string list option"

record NotionProject =
  pr_name :: string
  pr_next_action :: "string option"
  pr_notes :: "string option"
  pr_status :: string

record NotionIdea =
  i_name :: string
  i_one_liner :: "string option"
  i_notes :: "string option"
  i_tags :: "string list option"

record NotionAdmin =
  a_name :: string
  a_due_date :: "string option"
  a_status :: string

datatype Destination = destination Category | needs_review

record NotionInboxLog =
  l_record_name :: string
  l_captured_text :: string
  l_confidence :: real
  l_created :: string
  l_destination :: Destination

record Env =
  NOTION_DB_PEOPLE :: string
  NOTION_DB_PROJECTS :: string
  NOTION_DB_IDEAS :: string
  NOTION_DB_ADMIN :: string
  NOTION_DB_INBOX_LOG :: string

definition truthy :: "string option \<Rightarrow> bool" where
  \<comment> \<open>An optional string in a condition: present and not empty.\<close>
  "truthy s = (case s of None \<Rightarrow> False | Some x \<Rightarrow> x \<noteq> [])"

section \<open>The outside world\<close>

text \<open>
  The agent talks to three services over HTTP (the classification oracle, the Notion
  store, Slack) and keeps its state in the durable object's storage. A run threads a
  \<open>World\<close>: the agent's state in memory, the copy in durable storage, every request the
  agent has sent (in order, whether or not the service accepted it), the pages the store
  has created and the patches it has applied. What a service answers is not the agent's
  code; it is the parameter \<open>Services\<close>, one outcome per request. A thrown exception
  is the \<open>Inl\<close> of a result.
\<close>

datatype Error = Error string | TypeError string | SyntaxError string

definition message :: "Error \<Rightarrow> string" where
  "message e = (case e of Error m \<Rightarrow> m | TypeError m \<Rightarrow> m | SyntaxError m \<Rightarrow> m)"

datatype Request =
    OracleClassify string
  | OracleThreadIntent string ClassificationResult "ThreadMessage list" string
  | OracleAnswer string string
  | NotionCreatePage string Properties
  | NotionUpdatePage string Properties
  | NotionQuery string "string option"
  | SlackPostMessage string string "string option"
  | SlackPostBlocks string "SlackBlock list" string "string option"
  | SlackAddReaction string string string

datatype RecordKind = PersonPage | ProjectPage | IdeaPage | AdminPage | InboxLogPage

record NotionRecord =
  r_kind :: RecordKind
  r_database :: string
  r_id :: string
  r_properties :: Properties

record AgentState =
  threadContexts :: "string \<rightharpoonup> ThreadContext"

record World =
  state :: AgentState
  storage :: "AgentState option"
  requests :: "Request list"
  created :: "NotionRecord list"
  patched :: "(string \<times> Properties) list"

record Services =
  classify_outcome :: "string \<Rightarrow> Error + ClassificationResult"
  threadIntent_outcome ::
    "string \<Rightarrow> ClassificationResult \<Rightarrow> ThreadMessage list \<Rightarrow> string \<Rightarrow> Error + ThreadIntent"
  answer_outcome :: "string \<Rightarrow> string \<Rightarrow> Error + string"
  create_outcome :: "string \<Rightarrow> Properties \<Rightarrow> Error + string"
  update_outcome :: "string \<Rightarrow> Properties \<Rightarrow> Error option"
  query_outcome :: "string \<Rightarrow> string option \<Rightarrow> Error + NotionPageWithProperties list"
  post_outcome :: "string \<Rightarrow> string \<Rightarrow> string option \<Rightarrow> Error option"
  blocks_outcome :: "string \<Rightarrow> SlackBlock list \<Rightarrow> string \<Rightarrow> string option \<Rightarrow> Error option"
  reaction_outcome :: "string \<Rightarrow> string \<Rightarrow> string \<Rightarrow> Error option"
  put_outcome :: "Error option"
  now_iso :: string
  now_ms :: string

type_synonym 'a Run = "World \<Rightarrow> (Error + 'a) \<times> World"

definition ret :: "'a \<Rightarrow> 'a Run" where
  "ret x = (\<lambda>w. (Inr x, w))"

definition throw :: "Error \<Rightarrow> 'a Run" where
  "throw e = (\<lambda>w. (Inl e, w))"

definition bind :: "'a Run \<Rightarrow> ('a \<Rightarrow> 'b Run) \<Rightarrow> 'b Run" where
  \<comment> \<open>\<^verbatim>\<open>const x = await m; ...\<close>: an exception of \<open>m\<close> skips the rest.\<close>
  "bind m f = (\<lambda>w. case m w of (Inl e, w') \<Rightarrow> (Inl e, w') | (Inr x, w') \<Rightarrow> f x w')"

definition try_catch :: "'a Run \<Rightarrow> (Error \<Rightarrow> 'a Run) \<Rightarrow> 'a Run" where
  \<comment> \<open>\<^verbatim>\<open>try { m } catch (e) { h }\<close>: what \<open>m\<close> did before it threw stays done.\<close>
  "try_catch m h = (\<lambda>w. case m w of (Inl e, w') \<Rightarrow> h e w' | (Inr x, w') \<Rightarrow> (Inr x, w'))"

definition request :: "Request \<Rightarrow> unit Run" where
  "request r = (\<lambda>w. (Inr (), w\<lparr>requests := requests w @ [r]\<rparr>))"

definition settle :: "Error option \<Rightarrow> unit Run" where
  "settle outcome = (case outcome of None \<Rightarrow> ret () | Some e \<Rightarrow> throw e)"

definition this_state :: "AgentState Run" where
  "this_state = (\<lambda>w. (Inr (state w), w))"

definition updateState :: "Services \<Rightarrow> AgentState \<Rightarrow> unit Run" where
  \<comment> \<open>\<^verbatim>\<open>this.state = newState; await this.ctx.storage.put('state', this.state)\<close>\<close>
  "updateState sv newState =
     (\<lambda>w. let w1 = w\<lparr>state := newState\<rparr> in
          case put_outcome sv of
            Some e \<Rightarrow> (Inl e, w1)
          | None \<Rightarrow> (Inr (), w1\<lparr>storage := Some newState\<rparr>))"

section \<open>The oracle (services/openrouter.ts), as the agent sees it\<close>

text \<open>
  Each call is a request followed by what the awaited promise settles to: a rejection, or
  a value of the declared result type.
\<close>

definition classify :: "Services \<Rightarrow> string \<Rightarrow> ClassificationResult Run" where
  "classify sv txt =
     bind (request (OracleClassify txt)) (\<lambda>_.
       case classify_outcome sv txt of Inl e \<Rightarrow> throw e | Inr c \<Rightarrow> ret c)"

definition detectThreadIntent_call ::
  "Services \<Rightarrow> string \<Rightarrow> ClassificationResult \<Rightarrow> ThreadMessage list \<Rightarrow> string \<Rightarrow> ThreadIntent Run" where
  "detectThreadIntent_call sv original cls history newReply =
     bind (request (OracleThreadIntent original cls history newReply)) (\<lambda>_.
       case threadIntent_outcome sv original cls history newReply of
         Inl e \<Rightarrow> throw e | Inr i \<Rightarrow> ret i)"

definition generateQueryResponse :: "Services \<Rightarrow> string \<Rightarrow> string \<Rightarrow> string Run" where
  "generateQueryResponse sv question searchResults =
     bind (request (OracleAnswer question searchResults)) (\<lambda>_.
       case answer_outcome sv question searchResults of Inl e \<Rightarrow> throw e | Inr a \<Rightarrow> ret a)"

section \<open>The store (services/notion.ts)\<close>

definition getDatabaseId :: "Category \<Rightarrow> Env \<Rightarrow> string" where
  "getDatabaseId c env =
     (case c of person \<Rightarrow> NOTION_DB_PEOPLE env | project \<Rightarrow> NOTION_DB_PROJECTS env
              | idea \<Rightarrow> NOTION_DB_IDEAS env | admin \<Rightarrow> NOTION_DB_ADMIN env)"

definition optional :: "string \<Rightarrow> PropertyValue option \<Rightarrow> Properties" where
  \<comment> \<open>A property whose value is \<^verbatim>\<open>undefined\<close> is left out of the request body.\<close>
  "optional key v = (case v of None \<Rightarrow> [] | Some x \<Rightarrow> [(key, x)])"

definition rich_text_if :: "string option \<Rightarrow> PropertyValue option" where
  \<comment> \<open>\<^verbatim>\<open>s ? { rich_text: [{ text: { content: s } }] } : undefined\<close>\<close>
  "rich_text_if s = (if truthy s then Some (rich_text_value (the s)) else None)"

definition createPage :: "Services \<Rightarrow> RecordKind \<Rightarrow> string \<Rightarrow> Properties \<Rightarrow> string Run" where
  \<comment> \<open>The POST to \<^verbatim>\<open>/pages\<close> that the five create functions share; the result is the
      new page, of which the agent reads only the id.\<close>
  "createPage sv kind databaseId props =
     bind (request (NotionCreatePage databaseId props)) (\<lambda>_.
       case create_outcome sv databaseId props of
         Inl e \<Rightarrow> throw e
       | Inr pid \<Rightarrow>
           (\<lambda>w. (Inr pid,
                 w\<lparr>created := created w @
                    [\<lparr>r_kind = kind, r_database = databaseId, r_id = pid, r_properties = props\<rparr>]\<rparr>)))"

definition createPerson :: "Services \<Rightarrow> NotionPerson \<Rightarrow> string \<Rightarrow> string Run" where
  "createPerson sv d databaseId =
     createPage sv PersonPage databaseId
       ([(''Name'', title_value (p_name d))]
        @ optional ''Nicknames''
            (case p_nicknames d of
               None \<Rightarrow> None
             | Some ns \<Rightarrow> if length ns > 0 then Some (rich_text_value (join '', '' ns)) else None)
        @ optional ''Context'' (rich_text_if (p_context d))
        @ optional ''Follow-ups'' (rich_text_if (p_follow_ups d))
        @ [(''Last Touched'', date_value (p_last_touched d))]
        @ optional ''Tags'' (map_option multi_select_value (p_tags d)))"

definition createProject :: "Services \<Rightarrow> NotionProject \<Rightarrow> string \<Rightarrow> string Run" where
  "createProject sv d databaseId =
     createPage sv ProjectPage databaseId
       ([(''Name'', title_value (pr_name d))]
        @ optional ''Next Action'' (rich_text_if (pr_next_action d))
        @ optional ''Notes'' (rich_text_if (pr_notes d))
        @ [(''Status'', select_value (pr_status d))])"

definition createIdea :: "Services \<Rightarrow> NotionIdea \<Rightarrow> string \<Rightarrow> string Run" where
  "createIdea sv d databaseId =
     createPage sv IdeaPage databaseId
       ([(''Name'', title_value (i_name d))]
        @ optional ''One-liner'' (rich_text_if (i_one_liner d))
        @ optional ''Notes'' (rich_text_if (i_notes d))
        @ optional ''Tags'' (map_option multi_select_value (i_tags d)))"

definition createAdmin :: "Services \<Rightarrow> NotionAdmin \<Rightarrow> string \<Rightarrow> string Run" where
  "createAdmin sv d databaseId =
     createPage sv AdminPage databaseId
       ([(''Name'', title_value (a_name d))]
        @ optional ''Due Date'' (if truthy (a_due_date d) then Some (date_value (the (a_due_date d))) else None)
        @ [(''Status'', select_value (a_status d))])"

definition destination_string :: "Destination \<Rightarrow> string" where
  "destination_string d = (case d of destination c \<Rightarrow> category_string c | needs_review \<Rightarrow> ''needs_review'')"

definition createInboxLog :: "Services \<Rightarrow> NotionInboxLog \<Rightarrow> string \<Rightarrow> string Run" where
  "createInboxLog sv d databaseId =
     createPage sv InboxLogPage databaseId
       [(''Record Name'', title_value (l_record_name d)),
        (''Captured Text'', rich_text_value (l_captured_text d)),
        (''Confidence'', number_value (l_confidence d)),
        (''Created'', date_value (l_created d)),
        (''Destination'', select_value (destination_string (l_destination d)))]"

definition updatePage :: "Services \<Rightarrow> string \<Rightarrow> Properties \<Rightarrow> unit Run" where
  "updatePage sv pageId props =
     bind (request (NotionUpdatePage pageId props)) (\<lambda>_.
       case update_outcome sv pageId props of
         Some e \<Rightarrow> throw e
       | None \<Rightarrow> (\<lambda>w. (Inr (), w\<lparr>patched := patched w @ [(pageId, props)]\<rparr>)))"

section \<open>Name search (services/search.ts)\<close>

definition is_title :: "NotionProperty \<Rightarrow> bool" where
  "is_title p = (case p of title_property _ \<Rightarrow> True | _ \<Rightarrow> False)"

definition extractName :: "NotionPageWithProperties \<Rightarrow> string" where
  "extractName page =
     (case find is_title (map snd (properties page)) of
        Some (title_property parts) \<Rightarrow> if length parts > 0 then concat parts else []
      | _ \<Rightarrow> [])"

definition extractNicknames :: "NotionPageWithProperties \<Rightarrow> string list" where
  "extractNicknames page =
     (case map_of (properties page) ''Nicknames'' of
        Some (rich_text_property parts) \<Rightarrow>
          if length parts > 0
          then filter (\<lambda>n. length n > 0) (map trim (split_comma (concat parts)))
          else []
      | _ \<Rightarrow> [])"

definition queryDatabaseWithProperties ::
  "Services \<Rightarrow> string \<Rightarrow> string option \<Rightarrow> NotionPageWithProperties list Run" where
  \<comment> \<open>The filter, when there is one, is \<^verbatim>\<open>{ property: 'Name', title: { contains: query } }\<close>.\<close>
  "queryDatabaseWithProperties sv databaseId title_contains =
     bind (request (NotionQuery databaseId title_contains)) (\<lambda>_.
       case query_outcome sv databaseId title_contains of
         Inl e \<Rightarrow> throw e | Inr pages \<Rightarrow> ret pages)"

fun title_loop ::
  "string \<Rightarrow> Category \<Rightarrow> NotionPageWithProperties list \<Rightarrow> SearchResult list \<Rightarrow> SearchResult list" where
  \<comment> \<open>\<^verbatim>\<open>for (const page of pages)\<close>, pushing onto \<open>results\<close>\<close>
  "title_loop q c [] results = results"
| "title_loop q c (page # pages) results =
     (let nm = extractName page;
          similarity = calculateSimilarity q nm
      in title_loop q c pages
           (if similarity > 0
            then results @ [\<lparr>sr_page = page, sr_category = c, sr_name = nm,
                             sr_matchType = (if similarity = 1 then exact_match else partial_match),
                             sr_score = similarity\<rparr>]
            else results))"

fun nickname_scan ::
  "string \<Rightarrow> Category \<Rightarrow> NotionPageWithProperties \<Rightarrow> string list \<Rightarrow> SearchResult list \<Rightarrow> SearchResult list" where
  \<comment> \<open>\<^verbatim>\<open>for (const nickname of nicknames)\<close>; the first branch ends in \<^verbatim>\<open>break\<close>\<close>
  "nickname_scan q c page [] results = results"
| "nickname_scan q c page (nickname # rest) results =
     (let similarity = calculateSimilarity q nickname in
      if similarity > 0.5
      then results @ [\<lparr>sr_page = page, sr_category = c, sr_name = extractName page,
                       sr_matchType = nickname_match, sr_score = similarity * 0.9\<rparr>]
      else nickname_scan q c page rest results)"

fun nickname_loop ::
  "string \<Rightarrow> Category \<Rightarrow> NotionPageWithProperties list \<Rightarrow> SearchResult list \<Rightarrow> SearchResult list" where
  \<comment> \<open>\<^verbatim>\<open>for (const page of allPeople)\<close>\<close>
  "nickname_loop q c [] results = results"
| "nickname_loop q c (page # pages) results =
     nickname_loop q c pages (nickname_scan q c page (extractNicknames page) results)"

definition sort_by_score :: "SearchResult list \<Rightarrow> SearchResult list" where
  \<comment> \<open>\<^verbatim>\<open>results.sort((a, b) => b.score - a.score)\<close>: descending, and stable.\<close>
  "sort_by_score results = sort_key (\<lambda>r. - sr_score r) results"

definition searchByName :: "Services \<Rightarrow> Env \<Rightarrow> string \<Rightarrow> Category \<Rightarrow> SearchResult list Run" where
  "searchByName sv env q c =
     (let databaseId = getDatabaseId c env in
      bind (queryDatabaseWithProperties sv databaseId (Some q)) (\<lambda>pages.
        let results = title_loop q c pages [] in
        if c = person \<and> length results = 0 then
          bind (queryDatabaseWithProperties sv databaseId None) (\<lambda>allPeople.
            ret (sort_by_score (nickname_loop q c allPeople results)))
        else ret (sort_by_score results)))"

definition searchForDuplicates :: "Services \<Rightarrow> Env \<Rightarrow> string \<Rightarrow> Category \<Rightarrow> SearchResult list Run" where
  "searchForDuplicates sv env nm c =
     bind (searchByName sv env nm c) (\<lambda>results. ret (filter (\<lambda>r. sr_score r > 0.5) results))"

definition searchAll :: "Services \<Rightarrow> Env \<Rightarrow> string \<Rightarrow> SearchResult list Run" where
  \<comment> \<open>The four searches are started together and awaited with \<^verbatim>\<open>Promise.all\<close>; the
      model runs them one after the other, in the order of the list.\<close>
  "searchAll sv env q =
     bind (searchByName sv env q person) (\<lambda>r1.
     bind (searchByName sv env q project) (\<lambda>r2.
     bind (searchByName sv env q idea) (\<lambda>r3.
     bind (searchByName sv env q admin) (\<lambda>r4.
       ret (sort_by_score (r1 @ r2 @ r3 @ r4))))))"

text \<open>What the nickname pass takes from one record: its first nickname scoring above 0.5.\<close>

definition nickname_match_of ::
  "string \<Rightarrow> Category \<Rightarrow> NotionPageWithProperties \<Rightarrow> SearchResult option" where
  "nickname_match_of q c page =
     map_option
       (\<lambda>n. \<lparr>sr_page = page, sr_category = c, sr_name = extractName page,
              sr_matchType = nickname_match, sr_score = calculateSimilarity q n * 0.9\<rparr>)
       (find (\<lambda>n. calculateSimilarity q n > 0.5) (extractNicknames page))"

section \<open>Slack (services/slack.ts)\<close>

subsection \<open>Numbers in JavaScript\<close>

datatype Number = NaN | Num int

definition digit_value :: "char \<Rightarrow> nat option" where
  "digit_value c =
     (let n = (of_char c :: nat) in if 48 \<le> n \<and> n \<le> 57 then Some (n - 48) else None)"

fun digits_value :: "nat \<Rightarrow> string \<Rightarrow> nat" where
  \<comment> \<open>The value of the longest prefix of decimal digits, after the digits already read.\<close>
  "digits_value acc [] = acc"
| "digits_value acc (c # cs) =
     (case digit_value c of None \<Rightarrow> acc | Some d \<Rightarrow> digits_value (10 * acc + d) cs)"

definition parseInt10 :: "string \<Rightarrow> Number" where
  \<comment> \<open>\<^verbatim>\<open>parseInt(s, 10)\<close>: leading white space, a sign, then digits; no digit gives NaN.\<close>
  "parseInt10 s =
     (let t = dropWhile isWhiteSpace s;
          negative = (t \<noteq> [] \<and> hd t = CHR ''-'');
          u = (if t \<noteq> [] \<and> (hd t = CHR ''+'' \<or> hd t = CHR ''-'') then tl t else t)
      in if u = [] \<or> digit_value (hd u) = None then NaN
         else Num (if negative then - int (digits_value 0 u) else int (digits_value 0 u)))"

definition minus_Number :: "Number \<Rightarrow> Number \<Rightarrow> Number" where
  "minus_Number a b = (case (a, b) of (Num x, Num y) \<Rightarrow> Num (x - y) | _ \<Rightarrow> NaN)"

definition abs_Number :: "Number \<Rightarrow> Number" where
  "abs_Number a = (case a of Num x \<Rightarrow> Num \<bar>x\<bar> | NaN \<Rightarrow> NaN)"

definition greater_Number :: "Number \<Rightarrow> Number \<Rightarrow> bool" where
  \<comment> \<open>\<^verbatim>\<open>a > b\<close>: false as soon as one side is NaN.\<close>
  "greater_Number a b = (case (a, b) of (Num x, Num y) \<Rightarrow> x > y | _ \<Rightarrow> False)"

subsection \<open>Signature verification\<close>

definition hex_digit :: "nat \<Rightarrow> char" where
  "hex_digit n = (if n < 10 then char_of (48 + n) else char_of (87 + n))"

definition hex_byte :: "nat \<Rightarrow> string" where
  \<comment> \<open>\<^verbatim>\<open>b.toString(16).padStart(2, '0')\<close> for a byte\<close>
  "hex_byte b = [hex_digit (b div 16), hex_digit (b mod 16)]"

definition verifySignature ::
  "(string \<Rightarrow> string \<Rightarrow> nat list) \<Rightarrow> int \<Rightarrow> string \<Rightarrow> string \<Rightarrow> string \<Rightarrow> string \<Rightarrow> bool" where
  \<comment> \<open>\<open>hmac key text\<close> is the platform's HMAC-SHA256 (the bytes of the digest);
      \<open>now_millis\<close> is \<^verbatim>\<open>Date.now()\<close>.\<close>
  "verifySignature hmac now_millis body timestamp signature signingSecret =
     (let currentTime = Num (now_millis div 1000) in
      if greater_Number (abs_Number (minus_Number currentTime (parseInt10 timestamp))) (Num (60 * 5))
      then False
      else
        (let sigBaseString = ''v0:'' @ timestamp @ '':'' @ body;
             signatureArray = hmac signingSecret sigBaseString;
             computedSignature = ''v0='' @ concat (map hex_byte signatureArray)
         in computedSignature = signature))"

subsection \<open>Messages\<close>

function show_nat :: "nat \<Rightarrow> string" where
  "show_nat n = (if n < 10 then [char_of (48 + n)] else show_nat (n div 10) @ [char_of (48 + n mod 10)])"
  by pat_completeness auto
termination
  by (relation "measure id") auto

definition show_int :: "int \<Rightarrow> string" where
  \<comment> \<open>An integer in a template literal.\<close>
  "show_int i = (if i < 0 then ''-'' @ show_nat (nat (- i)) else show_nat (nat i))"

definition Math_round :: "real \<Rightarrow> int" where
  "Math_round x = \<lfloor>x + 1 / 2\<rfloor>"

definition capitalize :: "string \<Rightarrow> string" where
  \<comment> \<open>\<^verbatim>\<open>s.charAt(0).toUpperCase() + s.slice(1)\<close>\<close>
  "capitalize s = (case s of [] \<Rightarrow> [] | c # cs \<Rightarrow> toUpperCase_char c # cs)"

definition postMessage :: "Services \<Rightarrow> string \<Rightarrow> string \<Rightarrow> string option \<Rightarrow> unit Run" where
  \<comment> \<open>Throws on an HTTP error; the \<^verbatim>\<open>ok\<close> flag of Slack's answer is returned and the
      agent never reads it.\<close>
  "postMessage sv chan txt thread =
     bind (request (SlackPostMessage chan txt thread)) (\<lambda>_. settle (post_outcome sv chan txt thread))"

definition postMessageWithBlocks ::
  "Services \<Rightarrow> string \<Rightarrow> SlackBlock list \<Rightarrow> string \<Rightarrow> string option \<Rightarrow> unit Run" where
  "postMessageWithBlocks sv chan blocks fallbackText thread =
     bind (request (SlackPostBlocks chan blocks fallbackText thread)) (\<lambda>_.
       settle (blocks_outcome sv chan blocks fallbackText thread))"

definition addReaction :: "Services \<Rightarrow> string \<Rightarrow> string \<Rightarrow> string \<Rightarrow> unit Run" where
  "addReaction sv chan timestamp emoji =
     bind (request (SlackAddReaction chan timestamp emoji)) (\<lambda>_.
       settle (reaction_outcome sv chan timestamp emoji))"

definition formatConfirmation :: "string \<Rightarrow> string \<Rightarrow> real \<Rightarrow> string" where
  \<open>formatConfirmation cat nm conf =
     (let confidencePercent = Math_round (conf * 100);
          categoryCapitalized = capitalize cat
      in ''Filed as '' @ categoryCapitalized @ '': '' @ nm @ '' | Confidence: ''
           @ show_int confidencePercent @ ''%'')\<close>

definition formatClarificationRequest :: "real \<Rightarrow> string" where
  \<open>formatClarificationRequest conf =
     (let confidencePercent = Math_round (conf * 100)
      in ''I'm not sure where this goes ('' @ show_int confidencePercent
           @ ''% confidence). Is this about a person, project, idea, or admin task?'')\<close>

definition category_button :: "string \<Rightarrow> string \<Rightarrow> Category \<Rightarrow> SlackBlockElement" where
  "category_button thread chan cat =
     \<lparr>e_text = capitalize (category_string cat),
      e_action_id = ''sb_cat_'' @ category_string cat,
      e_value = \<lparr>action = category_select, threadTs = thread, channel = chan,
                 data = \<lparr>b_category = Some cat, b_resolution = None, b_option = None\<rparr>\<rparr>,
      e_style = None\<rparr>"

definition buildCategorySelectionBlocks :: "real \<Rightarrow> string \<Rightarrow> string \<Rightarrow> SlackBlock list \<times> string" where
  \<open>buildCategorySelectionBlocks conf thread chan =
     (let confidencePercent = Math_round (conf * 100);
          categories = [person, project, idea, admin];
          elements = map (category_button thread chan) categories
      in ([section_block (''I'm not sure where this goes ('' @ show_int confidencePercent
                            @ ''% confidence). What type of entry is this?''),
           actions_block ''category_select'' elements],
          formatClarificationRequest conf))\<close>

definition resolution_button ::
  "string \<Rightarrow> string \<Rightarrow> string \<Rightarrow> string \<Rightarrow> Resolution \<Rightarrow> string option \<Rightarrow> SlackBlockElement" where
  "resolution_button label aid thread chan res sty =
     \<lparr>e_text = label, e_action_id = aid,
      e_value = \<lparr>action = duplicate_resolve, threadTs = thread, channel = chan,
                 data = \<lparr>b_category = None, b_resolution = Some res, b_option = None\<rparr>\<rparr>,
      e_style = sty\<rparr>"

definition buildDuplicateResolutionBlocks ::
  "string \<Rightarrow> string \<Rightarrow> string \<Rightarrow> string \<Rightarrow> SlackBlock list \<times> string" where
  \<open>buildDuplicateResolutionBlocks cat duplicateName thread chan =
     ([section_block (''I found an existing '' @ cat @ '': "*'' @ duplicateName
                        @ ''*"\<newline>\<newline>Should I update that one, or create a new entry?''),
       actions_block ''duplicate_resolve''
         [resolution_button ''Update Existing'' ''sb_dup_update'' thread chan resolution_update (Some ''primary''),
          resolution_button ''Create New'' ''sb_dup_new'' thread chan resolution_new None]],
      ''I found an existing '' @ cat @ '': "'' @ duplicateName @ ''". Reply "update" or "new".'')\<close>

definition option_button :: "string \<Rightarrow> string \<Rightarrow> string \<Rightarrow> string \<Rightarrow> ThreadOption \<Rightarrow> SlackBlockElement" where
  "option_button label aid thread chan opt =
     \<lparr>e_text = label, e_action_id = aid,
      e_value = \<lparr>action = thread_option, threadTs = thread, channel = chan,
                 data = \<lparr>b_category = None, b_resolution = None, b_option = Some opt\<rparr>\<rparr>,
      e_style = None\<rparr>"

definition buildThreadOptionsBlocks :: "string \<Rightarrow> string \<Rightarrow> bool \<Rightarrow> SlackBlock list \<times> string" where
  \<open>buildThreadOptionsBlocks thread chan hasDuplicate =
     (let elements =
            [option_button ''Change Category'' ''sb_opt_category'' thread chan option_change_category,
             option_button ''Edit Fields'' ''sb_opt_fields'' thread chan option_edit_fields,
             option_button ''Add Context'' ''sb_opt_context'' thread chan option_add_context]
            @ (if hasDuplicate
               then [resolution_button ''Update Existing'' ''sb_dup_update'' thread chan resolution_update None,
                     resolution_button ''Create New'' ''sb_dup_new'' thread chan resolution_new None]
               else [])
      in ([section_block ''I'm not sure what you'd like me to do. What would you like to change?'',
           actions_block ''thread_options'' elements],
          ''I'm not sure what you'd like me to do. You can: change category, update a field, or add info.''))\<close>

declare show_nat.simps [simp del]

section \<open>The thread-intent call (services/openrouter.ts), inside\<close>

text \<open>
  What \<^verbatim>\<open>detectThreadIntent\<close> does once \<^verbatim>\<open>fetch\<close> has returned. The value that
  \<^verbatim>\<open>JSON.parse\<close> yields is untyped, so it is a \<open>Json\<close> here; \<^verbatim>\<open>JSON.parse\<close> itself
  is the platform's and is a parameter (\<open>None\<close> where it throws a SyntaxError).
\<close>

datatype Json =
    JNull | JBool bool | JNumber real | JString string
  | JArray "Json list" | JObject "(string \<times> Json) list"

datatype OracleResponse =
    HttpError nat string
  | InvalidBody
  | FirstChoice "string option" "string option"

text \<open>
  \<open>HttpError status text\<close>: \<^verbatim>\<open>response.ok\<close> is false. \<open>InvalidBody\<close>: the body is not
  JSON or has no \<^verbatim>\<open>choices\<close> array. \<open>FirstChoice content reasoning\<close>: the two members of
  the first choice's message, \<open>None\<close> where the member (or the choice) is missing.
\<close>

definition member :: "Json \<Rightarrow> string \<Rightarrow> Error + Json option" where
  \<comment> \<open>\<^verbatim>\<open>j.key\<close> for a key that no prototype defines: \<open>None\<close> is \<^verbatim>\<open>undefined\<close>.\<close>
  "member j key =
     (case j of
        JNull \<Rightarrow> Inl (TypeError (''Cannot read properties of null (reading '' @ [CHR 0x27] @ key @ [CHR 0x27] @ '')''))
      | JObject kvs \<Rightarrow> Inr (map_of kvs key)
      | _ \<Rightarrow> Inr None)"

definition falsy :: "Json option \<Rightarrow> bool" where
  \<comment> \<open>\<^verbatim>\<open>!v\<close>\<close>
  "falsy v =
     (case v of
        None \<Rightarrow> True
      | Some JNull \<Rightarrow> True
      | Some (JBool b) \<Rightarrow> \<not> b
      | Some (JNumber x) \<Rightarrow> x = 0
      | Some (JString s) \<Rightarrow> s = []
      | Some _ \<Rightarrow> False)"

definition validIntents :: "string list" where
  "validIntents = [''correct_category'', ''update_field'', ''add_context'', ''create_related'', ''query'', ''unclear'']"

definition array_includes :: "string list \<Rightarrow> Json option \<Rightarrow> bool" where
  \<comment> \<open>\<^verbatim>\<open>strings.includes(v)\<close>: only a string can equal a string.\<close>
  "array_includes xs v = (case v of Some (JString s) \<Rightarrow> s \<in> set xs | _ \<Rightarrow> False)"

definition unclear_intent :: Json where
  "unclear_intent =
     JObject [(''intent'', JString ''unclear''), (''details'', JObject []), (''confidence'', JNumber 0.5)]"

definition detectThreadIntent :: "(string \<Rightarrow> Json option) \<Rightarrow> OracleResponse \<Rightarrow> Error + Json" where
  "detectThreadIntent JSON_parse response =
     (case response of
        HttpError status errorText \<Rightarrow>
          Inl (Error (''OpenRouter API error: '' @ show_nat status @ '' - '' @ errorText))
      | InvalidBody \<Rightarrow> Inl (SyntaxError ''invalid response body'')
      | FirstChoice c r \<Rightarrow>
          (let content = (if truthy c then c else r) in
           if \<not> truthy content then Inl (Error ''No content in OpenRouter response'')
           else
             (case JSON_parse (the content) of
                None \<Rightarrow> Inl (SyntaxError ''Unexpected token'')
              | Some result \<Rightarrow>
                  (case member result ''intent'' of
                     Inl e \<Rightarrow> Inl e
                   | Inr i \<Rightarrow>
                       if falsy i \<or> \<not> array_includes validIntents i
                       then Inr unclear_intent
                       else Inr result))))"

section \<open>The agent (agent.ts)\<close>

definition CONFIDENCE_THRESHOLD :: real where
  "CONFIDENCE_THRESHOLD = 0.6"

definition today :: "Services \<Rightarrow> string" where
  \<comment> \<open>\<^verbatim>\<open>new Date().toISOString().split('T')[0]\<close>; one clock reading serves the whole run.\<close>
  "today sv = takeWhile (\<lambda>c. c \<noteq> CHR ''T'') (now_iso sv)"

definition or_default :: "string option \<Rightarrow> string \<Rightarrow> string" where
  \<comment> \<open>\<^verbatim>\<open>s || d\<close>\<close>
  "or_default s d = (if truthy s then the s else d)"

definition fileToNotion :: "Services \<Rightarrow> Env \<Rightarrow> ClassificationResult \<Rightarrow> string Run" where
  "fileToNotion sv env cls =
     (let dbId = getDatabaseId (category cls) env; f = fields_c cls in
      case category cls of
        person \<Rightarrow>
          createPerson sv
            \<lparr>p_name = name cls, p_nicknames = f_nicknames f, p_context = f_context f,
             p_follow_ups = f_follow_ups f, p_last_touched = today sv, p_tags = None\<rparr> dbId
      | project \<Rightarrow>
          createProject sv
            \<lparr>pr_name = name cls, pr_next_action = f_next_action f, pr_notes = f_notes f,
             pr_status = or_default (f_status f) ''active''\<rparr> dbId
      | idea \<Rightarrow>
          createIdea sv
            \<lparr>i_name = name cls, i_one_liner = f_one_liner f, i_notes = f_notes f, i_tags = None\<rparr> dbId
      | admin \<Rightarrow>
          createAdmin sv
            \<lparr>a_name = name cls, a_due_date = f_due_date f,
             a_status = or_default (f_status f) ''pending''\<rparr> dbId)"

definition buildUpdateProperties :: "Services \<Rightarrow> ClassificationResult \<Rightarrow> Properties" where
  "buildUpdateProperties sv cls =
     (let f = fields_c cls in
      [(''Name'', title_value (name cls))]
      @ (case category cls of
           person \<Rightarrow>
             optional ''Context'' (rich_text_if (f_context f))
             @ optional ''Follow-ups'' (rich_text_if (f_follow_ups f))
             @ optional ''Nicknames''
                 (case f_nicknames f of
                    None \<Rightarrow> None
                  | Some ns \<Rightarrow> if length ns > 0 then Some (rich_text_value (join '', '' ns)) else None)
             @ [(''Last Touched'', date_value (today sv))]
         | project \<Rightarrow>
             optional ''Next Action'' (rich_text_if (f_next_action f))
             @ optional ''Notes'' (rich_text_if (f_notes f))
         | idea \<Rightarrow>
             optional ''One-liner'' (rich_text_if (f_one_liner f))
             @ optional ''Notes'' (rich_text_if (f_notes f))
         | admin \<Rightarrow>
             optional ''Due Date''
               (if truthy (f_due_date f) then Some (date_value (the (f_due_date f))) else None)))"

definition fieldMapping :: "Category \<Rightarrow> (string \<times> string) list" where
  "fieldMapping c =
     (case c of
        person \<Rightarrow> [(''name'', ''Name''), (''context'', ''Context''), (''follow_ups'', ''Follow-ups''),
                    (''nicknames'', ''Nicknames'')]
      | project \<Rightarrow> [(''name'', ''Name''), (''next_action'', ''Next Action''), (''notes'', ''Notes''),
                     (''status'', ''Status'')]
      | idea \<Rightarrow> [(''name'', ''Name''), (''one_liner'', ''One-liner''), (''notes'', ''Notes'')]
      | admin \<Rightarrow> [(''name'', ''Name''), (''due_date'', ''Due Date''), (''status'', ''Status'')])"

definition buildFieldUpdateProperties :: "string \<Rightarrow> string \<Rightarrow> Category \<Rightarrow> Properties" where
  \<comment> \<open>The lookup is by own keys of the table; names that every object inherits are not modelled.\<close>
  "buildFieldUpdateProperties fld val c =
     (let notionField = or_default (map_of (fieldMapping c) fld) fld in
      if notionField = ''Name'' then [(notionField, title_value val)]
      else if notionField = ''Status'' then [(notionField, select_value val)]
      else if notionField = ''Due Date'' then [(notionField, date_value val)]
      else [(notionField, rich_text_value val)])"

definition format_result :: "SearchResult \<Rightarrow> string" where
  \<open>format_result r =
     ''- '' @ category_string (sr_category r) @ '': "'' @ sr_name r @ ''" (match: ''
       @ show_int (Math_round (sr_score r * 100)) @ ''%)''\<close>

definition handleQuery :: "Services \<Rightarrow> Env \<Rightarrow> string \<Rightarrow> string \<Rightarrow> string option \<Rightarrow> unit Run" where
  "handleQuery sv env question chan thread =
     try_catch
       (bind (searchAll sv env question) (\<lambda>results.
          let searchResultsText =
                (if length results > 0
                 then join ''\<newline>'' (map format_result (take 10 results))
                 else ''No matching entries found.'')
          in bind (generateQueryResponse sv question searchResultsText) (\<lambda>response.
               postMessage sv chan response thread)))
       (\<lambda>error. postMessage sv chan ''I had trouble searching your data. Please try again.'' thread)"

definition put_context :: "Services \<Rightarrow> string \<Rightarrow> ThreadContext \<Rightarrow> unit Run" where
  \<comment> \<open>\<^verbatim>\<open>await this.updateState({ ...this.state, threadContexts: { ...this.state.threadContexts, [key]: ctx } })\<close>\<close>
  "put_context sv key ctx =
     bind this_state (\<lambda>st.
       updateState sv (st\<lparr>threadContexts := (threadContexts st)(key \<mapsto> ctx)\<rparr>))"

definition assistant_message :: "Services \<Rightarrow> string \<Rightarrow> ThreadMessage" where
  \<comment> \<open>\<^verbatim>\<open>{ role: 'assistant', content: botResponse, ts: Date.now().toString() }\<close>\<close>
  "assistant_message sv botResponse = \<lparr>role = assistant, content = botResponse, ts = now_ms sv\<rparr>"

definition thread_key :: "string option \<Rightarrow> string" where
  \<comment> \<open>A thread id used as an object key. The caller passes a reply only when it has a
      thread id; a missing one would index the key \<^verbatim>\<open>undefined\<close>.\<close>
  "thread_key thread = (case thread of Some t \<Rightarrow> t | None \<Rightarrow> ''undefined'')"

definition handleDuplicateUpdate ::
  "Services \<Rightarrow> ThreadContext \<Rightarrow> string option \<Rightarrow> string \<Rightarrow> ThreadMessage list \<Rightarrow> unit Run" where
  \<open>handleDuplicateUpdate sv ctx thread chan msgs =
     (case potentialDuplicate ctx of
        None \<Rightarrow> throw (TypeError ''Cannot read properties of undefined'')
      | Some duplicate \<Rightarrow>
          (let props = buildUpdateProperties sv (classification ctx) in
           bind (updatePage sv (pd_pageId duplicate) props) (\<lambda>_.
             let botResponse = ''Updated existing '' @ category_string (pd_category duplicate)
                                 @ '': "'' @ pd_name duplicate @ ''"''
             in bind (postMessage sv chan botResponse thread) (\<lambda>_.
                  put_context sv (thread_key thread)
                    (ctx\<lparr>notionPageId := Some (pd_pageId duplicate),
                         potentialDuplicate := None,
                         messages := msgs @ [assistant_message sv botResponse]\<rparr>)))))\<close>

definition handleDuplicateNew ::
  "Services \<Rightarrow> Env \<Rightarrow> ThreadContext \<Rightarrow> string option \<Rightarrow> string \<Rightarrow> ThreadMessage list \<Rightarrow> unit Run" where
  "handleDuplicateNew sv env ctx thread chan msgs =
     bind (fileToNotion sv env (classification ctx)) (\<lambda>pageId.
       let cls = classification ctx;
           botResponse = formatConfirmation (category_string (category cls)) (name cls) (confidence cls)
       in bind (postMessage sv chan botResponse thread) (\<lambda>_.
            put_context sv (thread_key thread)
              (ctx\<lparr>notionPageId := Some pageId,
                   potentialDuplicate := None,
                   messages := msgs @ [assistant_message sv botResponse]\<rparr>)))"

definition respond :: "Services \<Rightarrow> string \<Rightarrow> string option \<Rightarrow> string \<Rightarrow> unit Run" where
  \<comment> \<open>After the switch: \<^verbatim>\<open>if (botResponse) { await postMessage(...) }\<close>\<close>
  "respond sv chan thread botResponse =
     (if botResponse \<noteq> [] then postMessage sv chan botResponse thread else ret ())"

definition on_intent ::
  "Services \<Rightarrow> Env \<Rightarrow> SlackMessageEvent \<Rightarrow> ThreadContext \<Rightarrow> ThreadMessage list \<Rightarrow> ThreadIntent \<Rightarrow> unit Run" where
  \<comment> \<open>The \<^verbatim>\<open>switch (intent.intent)\<close> of \<^verbatim>\<open>handleThreadReply\<close> and the statement after it.\<close>
  \<open>on_intent sv env msg ctx updatedMessages i =
     (let thread = ev_thread_ts msg; chan = ev_channel msg; d = details i; cls = classification ctx in
      case intent i of
        correct_category \<Rightarrow>
          (case d_newCategory d of
             None \<Rightarrow> respond sv chan thread (''Already categorized as '' @ category_string (category cls) @ ''.'')
           | Some newCategory \<Rightarrow>
               if newCategory \<noteq> category cls then
                 (let updatedClassification = cls\<lparr>category := newCategory, confidence := 0.95\<rparr> in
                  bind (fileToNotion sv env updatedClassification) (\<lambda>pageId.
                    let botResponse = ''Got it. Moved to '' @ capitalize (category_string newCategory)
                                        @ '': '' @ name updatedClassification
                    in bind (put_context sv (thread_key thread)
                               (ctx\<lparr>classification := updatedClassification,
                                    notionPageId := Some pageId,
                                    messages := updatedMessages @ [assistant_message sv botResponse]\<rparr>)) (\<lambda>_.
                         respond sv chan thread botResponse)))
               else respond sv chan thread (''Already categorized as '' @ category_string (category cls) @ ''.''))
      | update_field \<Rightarrow>
          if truthy (notionPageId ctx) \<and> truthy (d_field d) \<and> truthy (d_value d) then
            (let props = buildFieldUpdateProperties (the (d_field d)) (the (d_value d)) (category cls) in
             bind (updatePage sv (the (notionPageId ctx)) props) (\<lambda>_.
               let botResponse = ''Updated '' @ the (d_field d) @ '' to "'' @ the (d_value d) @ ''"''
               in bind (put_context sv (thread_key thread)
                          (ctx\<lparr>messages := updatedMessages @ [assistant_message sv botResponse]\<rparr>)) (\<lambda>_.
                    respond sv chan thread botResponse)))
          else respond sv chan thread ''I couldn't update the field. The entry may not have been filed yet.''
      | add_context \<Rightarrow>
          if truthy (notionPageId ctx) \<and> truthy (d_context d) then
            (let fieldName = (if category cls = person then ''Context'' else ''Notes'');
                 props = [(fieldName, rich_text_value (the (d_context d)))]
             in bind (updatePage sv (the (notionPageId ctx)) props) (\<lambda>_.
                  let botResponse = ''Added context: "'' @ the (d_context d) @ ''"''
                  in bind (put_context sv (thread_key thread)
                             (ctx\<lparr>messages := updatedMessages @ [assistant_message sv botResponse]\<rparr>)) (\<lambda>_.
                       respond sv chan thread botResponse)))
          else respond sv chan thread ''I couldn't add context. The entry may not have been filed yet.''
      | create_related \<Rightarrow>
          (case d_category d of
             None \<Rightarrow> respond sv chan thread ''I couldn't create a related entry. Please provide more details.''
           | Some relatedCategory \<Rightarrow>
               if truthy (d_name d) then
                 (let relatedName = the (d_name d);
                      relatedClassification =
                        \<lparr>category = relatedCategory, confidence = 0.9, name = relatedName,
                         fields_c =
                           (case d_fields d of
                              Some fs \<Rightarrow> fs
                            | None \<Rightarrow>
                                \<lparr>f_name = Some relatedName, f_nicknames = None, f_context = None,
                                 f_follow_ups = None, f_next_action = None, f_notes = None,
                                 f_status = None, f_one_liner = None, f_due_date = None\<rparr>)\<rparr>
                  in bind (fileToNotion sv env relatedClassification) (\<lambda>pageId.
                       let botResponse = ''Created related '' @ category_string relatedCategory
                                           @ '': "'' @ relatedName @ ''"''
                       in bind (put_context sv (thread_key thread)
                                  (ctx\<lparr>messages := updatedMessages @ [assistant_message sv botResponse]\<rparr>)) (\<lambda>_.
                            respond sv chan thread botResponse)))
               else respond sv chan thread ''I couldn't create a related entry. Please provide more details.'')
      | query \<Rightarrow>
          bind (handleQuery sv env (or_default (d_question d) (ev_text msg)) chan thread) (\<lambda>_.
            put_context sv (thread_key thread) (ctx\<lparr>messages := updatedMessages\<rparr>))
      | unclear \<Rightarrow>
          (let (blocks, txt) =
                 buildThreadOptionsBlocks (thread_key thread) chan (potentialDuplicate ctx \<noteq> None)
           in bind (postMessageWithBlocks sv chan blocks txt thread) (\<lambda>_.
                put_context sv (thread_key thread)
                  (ctx\<lparr>messages := updatedMessages @ [assistant_message sv txt]\<rparr>))))\<close>

definition handleThreadReply :: "Services \<Rightarrow> Env \<Rightarrow> SlackMessageEvent \<Rightarrow> unit Run" where
  \<open>handleThreadReply sv env msg =
     (let thread = ev_thread_ts msg; replyText = ev_text msg; chan = ev_channel msg in
      bind this_state (\<lambda>st.
        case threadContexts st (thread_key thread) of
          None \<Rightarrow> postMessage sv chan ''I don't have context for this thread. Try posting a new message.'' thread
        | Some ctx \<Rightarrow>
            (let updatedMessages = messages ctx @ [\<lparr>role = user, content = replyText, ts = ev_ts msg\<rparr>];
                 lowerText = trim (toLowerCase replyText)
             in if potentialDuplicate ctx \<noteq> None
                   \<and> (lowerText = ''update'' \<or> includes_str lowerText ''update'')
                then handleDuplicateUpdate sv ctx thread chan updatedMessages
                else if potentialDuplicate ctx \<noteq> None
                        \<and> (lowerText = ''new'' \<or> includes_str lowerText ''new'')
                then handleDuplicateNew sv env ctx thread chan updatedMessages
                else
                  try_catch
                    (bind (detectThreadIntent_call sv (originalMessage ctx) (classification ctx)
                             (messages ctx) replyText)
                       (on_intent sv env msg ctx updatedMessages))
                    (\<lambda>error. postMessage sv chan
                                ''I had trouble understanding that. Could you try rephrasing?'' thread))))\<close>

definition note_similar :: "SearchResult list \<Rightarrow> string" where
  \<open>note_similar duplicates =
     (if length duplicates > 0
      then ''\<newline>(Note: Similar entries exist: '' @ join '', '' (map sr_name duplicates) @ '')''
      else [])\<close>

definition file_new_capture ::
  "Services \<Rightarrow> Env \<Rightarrow> SlackMessageEvent \<Rightarrow> ClassificationResult \<Rightarrow> SearchResult list \<Rightarrow> unit Run" where
  \<comment> \<open>The last part of \<^verbatim>\<open>processNewMessage\<close>: no duplicate, or only weak matches.\<close>
  "file_new_capture sv env msg cls duplicates =
     bind (fileToNotion sv env cls) (\<lambda>pageId.
     bind (if confidence cls = 1
           then try_catch (addReaction sv (ev_channel msg) (ev_ts msg) ''100'') (\<lambda>e. ret ())
           else ret ()) (\<lambda>_.
       let confirmationMsg =
             formatConfirmation (category_string (category cls)) (name cls) (confidence cls)
             @ note_similar duplicates
       in bind (postMessage sv (ev_channel msg) confirmationMsg (Some (ev_ts msg))) (\<lambda>_.
            put_context sv (ev_ts msg)
              \<lparr>originalMessage = ev_text msg, classification = cls, notionPageId = Some pageId,
               potentialDuplicate = None, messages = [], createdAt = now_iso sv\<rparr>)))"

definition page_kind :: "Category \<Rightarrow> RecordKind" where
  \<comment> \<open>Which of the four create functions \<^verbatim>\<open>fileToNotion\<close> calls for a category.\<close>
  "page_kind c = (case c of person \<Rightarrow> PersonPage | project \<Rightarrow> ProjectPage
                          | idea \<Rightarrow> IdeaPage | admin \<Rightarrow> AdminPage)"

definition sends_only :: "'a Run \<Rightarrow> bool" where
  \<comment> \<open>A run that only sends requests; neither its result nor what it sends depends on
      the world it starts in.\<close>
  "sends_only m = (\<exists>r rs. \<forall>w. m w = (r, w\<lparr>requests := requests w @ rs\<rparr>))"

definition inbox_entry :: "Services \<Rightarrow> SlackMessageEvent \<Rightarrow> ClassificationResult \<Rightarrow> NotionInboxLog" where
  \<comment> \<open>The object that \<^verbatim>\<open>processNewMessage\<close> passes to \<^verbatim>\<open>createInboxLog\<close>.\<close>
  "inbox_entry sv msg cls =
     \<lparr>l_record_name = name cls, l_captured_text = ev_text msg,
      l_confidence = confidence cls, l_created = now_iso sv,
      l_destination = (if confidence cls \<ge> CONFIDENCE_THRESHOLD
                       then destination (category cls) else needs_review)\<rparr>"

definition ask_category :: "Services \<Rightarrow> SlackMessageEvent \<Rightarrow> ClassificationResult \<Rightarrow> unit Run" where
  \<comment> \<open>The branch of \<^verbatim>\<open>processNewMessage\<close> under \<^verbatim>\<open>confidence < CONFIDENCE_THRESHOLD\<close>.
      Its \<^verbatim>\<open>const { blocks, text }\<close> declares a \<^verbatim>\<open>text\<close> of the block, so the
      \<^verbatim>\<open>originalMessage: text\<close> below it reads the prompt's fallback text.\<close>
  "ask_category sv msg cls =
     (let (blocks, txt) = buildCategorySelectionBlocks (confidence cls) (ev_ts msg) (ev_channel msg) in
      bind (postMessageWithBlocks sv (ev_channel msg) blocks txt (Some (ev_ts msg))) (\<lambda>_.
        put_context sv (ev_ts msg)
          \<lparr>originalMessage = txt, classification = cls, notionPageId = None,
           potentialDuplicate = None, messages = [], createdAt = now_iso sv\<rparr>))"

definition ask_duplicate ::
  "Services \<Rightarrow> SlackMessageEvent \<Rightarrow> ClassificationResult \<Rightarrow> SearchResult \<Rightarrow> unit Run" where
  \<comment> \<open>The branch of \<^verbatim>\<open>processNewMessage\<close> for a strong duplicate, \<^verbatim>\<open>duplicates[0]\<close>.
      Here too \<^verbatim>\<open>text\<close> is the one declared with \<^verbatim>\<open>blocks\<close>, the prompt's fallback text.\<close>
  "ask_duplicate sv msg cls duplicate =
     (let (blocks, txt) = buildDuplicateResolutionBlocks (category_string (category cls))
                            (sr_name duplicate) (ev_ts msg) (ev_channel msg)
      in bind (postMessageWithBlocks sv (ev_channel msg) blocks txt (Some (ev_ts msg))) (\<lambda>_.
           put_context sv (ev_ts msg)
             \<lparr>originalMessage = txt, classification = cls, notionPageId = None,
              potentialDuplicate =
                Some \<lparr>pd_pageId = page_id (sr_page duplicate), pd_name = sr_name duplicate,
                      pd_category = sr_category duplicate, pd_score = sr_score duplicate\<rparr>,
              messages = [], createdAt = now_iso sv\<rparr>))"

definition after_log :: "Services \<Rightarrow> Env \<Rightarrow> SlackMessageEvent \<Rightarrow> ClassificationResult \<Rightarrow> unit Run" where
  \<comment> \<open>\<^verbatim>\<open>processNewMessage\<close> from the confidence check on.\<close>
  "after_log sv env msg cls =
     (if confidence cls < CONFIDENCE_THRESHOLD then ask_category sv msg cls
      else
        bind (searchForDuplicates sv env (name cls) (category cls)) (\<lambda>duplicates.
          if length duplicates > 0 \<and> sr_score (hd duplicates) > 0.8
          then ask_duplicate sv msg cls (hd duplicates)
          else file_new_capture sv env msg cls duplicates))"

definition capture_body :: "Services \<Rightarrow> Env \<Rightarrow> SlackMessageEvent \<Rightarrow> unit Run" where
  \<comment> \<open>The \<^verbatim>\<open>try\<close> block of \<^verbatim>\<open>processNewMessage\<close>.\<close>
  "capture_body sv env msg =
     bind (classify sv (ev_text msg)) (\<lambda>cls.
     bind (createInboxLog sv (inbox_entry sv msg cls) (NOTION_DB_INBOX_LOG env)) (\<lambda>_.
       after_log sv env msg cls))"

definition report_error :: "Services \<Rightarrow> SlackMessageEvent \<Rightarrow> Error \<Rightarrow> unit Run" where
  \<comment> \<open>The \<^verbatim>\<open>catch\<close> block of \<^verbatim>\<open>processNewMessage\<close>.\<close>
  "report_error sv msg error =
     try_catch
       (postMessage sv (ev_channel msg) (''Error processing message: '' @ message error) (Some (ev_ts msg)))
       (\<lambda>slackError. ret ())"

definition processNewMessage :: "Services \<Rightarrow> Env \<Rightarrow> SlackMessageEvent \<Rightarrow> unit Run" where
  "processNewMessage sv env msg =
     bind (try_catch (addReaction sv (ev_channel msg) (ev_ts msg) ''white_check_mark'') (\<lambda>e. ret ())) (\<lambda>_.
       try_catch (capture_body sv env msg) (report_error sv msg))"


definition is_intent_call :: "Request \<Rightarrow> bool" where
  "is_intent_call r = (case r of OracleThreadIntent _ _ _ _ \<Rightarrow> True | _ \<Rightarrow> False)"

definition destination_records :: "World \<Rightarrow> NotionRecord list" where
  \<comment> \<open>The pages created in the four category databases, that is, by any create function
      but \<^verbatim>\<open>createInboxLog\<close>.\<close>
  "destination_records w = filter (\<lambda>r. r_kind r \<noteq> InboxLogPage) (created w)"

section \<open>Concrete inputs\<close>

text \<open>
  Services that refuse every oracle call and find nothing, and accept every write; the
  examples below change one outcome at a time.
\<close>

definition plain_services :: Services where
  "plain_services =
     \<lparr>classify_outcome = (\<lambda>_. Inl (Error ''OpenRouter API error: 500 - down'')),
      threadIntent_outcome = (\<lambda>_ _ _ _. Inl (Error ''OpenRouter API error: 500 - down'')),
      answer_outcome = (\<lambda>_ _. Inl (Error ''OpenRouter API error: 500 - down'')),
      create_outcome = (\<lambda>_ _. Inr ''page-1''),
      update_outcome = (\<lambda>_ _. None),
      query_outcome = (\<lambda>_ _. Inr []),
      post_outcome = (\<lambda>_ _ _. None),
      blocks_outcome = (\<lambda>_ _ _ _. None),
      reaction_outcome = (\<lambda>_ _ _. None),
      put_outcome = None,
      now_iso = ''2024-01-15T10:00:00.000Z'',
      now_ms = ''1705312800000''\<rparr>"

definition plain_env :: Env where
  "plain_env =
     \<lparr>NOTION_DB_PEOPLE = ''db-people'', NOTION_DB_PROJECTS = ''db-projects'',
      NOTION_DB_IDEAS = ''db-ideas'', NOTION_DB_ADMIN = ''db-admin'',
      NOTION_DB_INBOX_LOG = ''db-inbox''\<rparr>"

definition empty_world :: World where
  "empty_world =
     \<lparr>state = \<lparr>threadContexts = Map.empty\<rparr>, storage = None, requests = [], created = [], patched = []\<rparr>"

definition no_fields :: CategoryFields where
  "no_fields =
     \<lparr>f_name = None, f_nicknames = None, f_context = None, f_follow_ups = None,
      f_next_action = None, f_notes = None, f_status = None, f_one_liner = None, f_due_date = None\<rparr>"

definition no_details :: Details where
  "no_details =
     \<lparr>d_newCategory = None, d_field = None, d_value = None, d_context = None,
      d_category = None, d_name = None, d_fields = None, d_question = None\<rparr>"

definition sarah :: ClassificationResult where
  "sarah =
     \<lparr>category = person, confidence = 0.91, name = ''Sarah'',
      fields_c = no_fields\<lparr>f_name := Some ''Sarah'', f_context := Some ''job hunting''\<rparr>\<rparr>"

definition capture :: SlackMessageEvent where
  "capture =
     \<lparr>ev_channel = ''C1'', ev_text = ''Met coffee with Sarah'', ev_ts = ''100.1'', ev_thread_ts = None\<rparr>"

definition sally_page :: NotionPageWithProperties where
  "sally_page =
     \<lparr>page_id = ''page-7'',
      properties = [(''Name'', title_property [''Sarah Connor'']),
                    (''Nicknames'', rich_text_property [''Sal, Sally''])]\<rparr>"

definition vague :: ClassificationResult where
  "vague = \<lparr>category = idea, confidence = 0.4, name = ''Something'', fields_c = no_fields\<rparr>"

definition store_down :: Services where
  \<comment> \<open>A low-confidence classification, and a store that refuses every write.\<close>
  "store_down =
     plain_services\<lparr>classify_outcome := (\<lambda>_. Inr vague),
                    create_outcome := (\<lambda>_ _. Inl (Error ''Notion API error: 500 - down''))\<rparr>"

definition slack_down :: Services where
  \<comment> \<open>A confident classification, and a Slack that refuses every text message.\<close>
  "slack_down =
     plain_services\<lparr>classify_outcome := (\<lambda>_. Inr sarah),
                    post_outcome := (\<lambda>_ _ _. Some (Error ''Slack API HTTP error: 503''))\<rparr>"

definition filing_services :: Services where
  \<comment> \<open>A confident classification; everything else succeeds.\<close>
  "filing_services = plain_services\<lparr>classify_outcome := (\<lambda>_. Inr sarah)\<rparr>"


definition pending_context :: ThreadContext where
  \<comment> \<open>A capture waiting for its duplicate to be resolved, as \<^verbatim>\<open>processNewMessage\<close> stores it.\<close>
  \<open>pending_context =
     \<lparr>originalMessage = ''I found an existing person: "Sarah Connor". Reply "update" or "new".'',
      classification = sarah, notionPageId = None,
      potentialDuplicate =
        Some \<lparr>pd_pageId = ''page-7'', pd_name = ''Sarah Connor'', pd_category = person, pd_score = 0.9\<rparr>,
      messages = [], createdAt = ''2024-01-15T10:00:00.000Z''\<rparr>\<close>

definition filed_context :: ThreadContext where
  \<comment> \<open>A capture filed as a person.\<close>
  "filed_context =
     \<lparr>originalMessage = ''Met coffee with Sarah'', classification = sarah,
      notionPageId = Some ''page-1'', potentialDuplicate = None,
      messages = [], createdAt = ''2024-01-15T10:00:00.000Z''\<rparr>"

definition world_with :: "ThreadContext \<Rightarrow> World" where
  \<comment> \<open>The one thread 100.1, in memory and in storage.\<close>
  "world_with ctx =
     \<lparr>state = \<lparr>threadContexts = [''100.1'' \<mapsto> ctx]\<rparr>,
      storage = Some \<lparr>threadContexts = [''100.1'' \<mapsto> ctx]\<rparr>,
      requests = [], created = [], patched = []\<rparr>"

definition reply :: "string \<Rightarrow> SlackMessageEvent" where
  "reply txt = \<lparr>ev_channel = ''C1'', ev_text = txt, ev_ts = ''100.2'', ev_thread_ts = Some ''100.1''\<rparr>"

definition patch_down :: Services where
  \<comment> \<open>A store that refuses every update.\<close>
  "patch_down = plain_services\<lparr>update_outcome := (\<lambda>_ _. Some (Error ''Notion API error: 500 - down''))\<rparr>"

definition says_person :: Services where
  \<comment> \<open>The oracle reads every reply as a correction to the category person.\<close>
  "says_person =
     plain_services\<lparr>threadIntent_outcome :=
       (\<lambda>_ _ _ _. Inr \<lparr>intent = correct_category,
                        details = no_details\<lparr>d_newCategory := Some person\<rparr>,
                        i_confidence = 0.9\<rparr>)\<rparr>"

definition nickname_services :: Services where
  \<comment> \<open>No title contains the query; the unfiltered query returns one person.\<close>
  "nickname_services =
     plain_services\<lparr>query_outcome := (\<lambda>db flt. if flt = None then Inr [sally_page] else Inr [])\<rparr>"

definition toy_parse :: "string \<Rightarrow> Json option" where
  \<comment> \<open>A stand-in for \<^verbatim>\<open>JSON.parse\<close> that knows one document.\<close>
  "toy_parse s = (if s = ''{}'' then Some (JObject []) else None)"

section \<open>Properties\<close>

subsection \<open>Evaluating code units\<close>

lemma char_of_is [simp]: "char_of (n::nat) = c \<longleftrightarrow> take_bit 8 n = of_char c"
  by (rule char_of_eq_iff)

lemma is_char_of [simp]: "c = char_of (n::nat) \<longleftrightarrow> take_bit 8 n = of_char c"
  using char_of_eq_iff[of n c] by blast

subsection \<open>Runs\<close>

lemma bind_ret [simp]: "bind (ret x) f = f x"
  by (simp add: bind_def ret_def)

lemma bind_throw [simp]: "bind (throw e) f = throw e"
  by (simp add: bind_def throw_def)

lemma queryDatabaseWithProperties_ok:
  "query_outcome sv db flt = Inr pages \<Longrightarrow>
   queryDatabaseWithProperties sv db flt w = (Inr pages, w\<lparr>requests := requests w @ [NotionQuery db flt]\<rparr>)"
  by (simp add: queryDatabaseWithProperties_def bind_def request_def ret_def)

lemma bind_apply:
  "bind m f w = (case m w of (Inl e, w') \<Rightarrow> (Inl e, w') | (Inr x, w') \<Rightarrow> f x w')"
  by (simp add: bind_def)

lemma try_catch_apply:
  "try_catch m h w = (case m w of (Inl e, w') \<Rightarrow> h e w' | (Inr x, w') \<Rightarrow> (Inr x, w'))"
  by (simp add: try_catch_def)

lemma request_run: "request r w = (Inr (), w\<lparr>requests := requests w @ [r]\<rparr>)"
  by (simp add: request_def)

lemma settle_run: "settle outcome w = ((case outcome of None \<Rightarrow> Inr () | Some e \<Rightarrow> Inl e), w)"
  by (simp add: settle_def ret_def throw_def split: option.splits)

lemma classify_run:
  "classify sv txt w = (classify_outcome sv txt, w\<lparr>requests := requests w @ [OracleClassify txt]\<rparr>)"
  by (simp add: classify_def bind_apply request_run ret_def throw_def split: sum.splits)

lemma detectThreadIntent_call_run:
  "detectThreadIntent_call sv original cls history newReply w =
     (threadIntent_outcome sv original cls history newReply,
      w\<lparr>requests := requests w @ [OracleThreadIntent original cls history newReply]\<rparr>)"
  by (simp add: detectThreadIntent_call_def bind_apply request_run ret_def throw_def split: sum.splits)

lemma postMessage_run:
  "postMessage sv chan txt thread w =
     ((case post_outcome sv chan txt thread of None \<Rightarrow> Inr () | Some e \<Rightarrow> Inl e),
      w\<lparr>requests := requests w @ [SlackPostMessage chan txt thread]\<rparr>)"
  by (simp add: postMessage_def bind_apply request_run settle_run)


lemma addReaction_run:
  "addReaction sv chan t emoji w =
     ((case reaction_outcome sv chan t emoji of None \<Rightarrow> Inr () | Some e \<Rightarrow> Inl e),
      w\<lparr>requests := requests w @ [SlackAddReaction chan t emoji]\<rparr>)"
  by (simp add: addReaction_def bind_apply request_run settle_run)

lemma quiet_reaction_run:
  "try_catch (addReaction sv chan t emoji) (\<lambda>e. ret ()) w =
     (Inr (), w\<lparr>requests := requests w @ [SlackAddReaction chan t emoji]\<rparr>)"
  by (simp add: try_catch_apply addReaction_run ret_def split: option.splits)

lemma createPage_run:
  "createPage sv kind db props w =
     (create_outcome sv db props,
      w\<lparr>requests := requests w @ [NotionCreatePage db props],
        created := created w @
          (case create_outcome sv db props of
             Inl e \<Rightarrow> []
           | Inr pid \<Rightarrow> [\<lparr>r_kind = kind, r_database = db, r_id = pid, r_properties = props\<rparr>])\<rparr>)"
  by (simp add: createPage_def bind_apply request_run throw_def split: sum.splits)

lemma updatePage_run:
  "updatePage sv pageId props w =
     ((case update_outcome sv pageId props of None \<Rightarrow> Inr () | Some e \<Rightarrow> Inl e),
      w\<lparr>requests := requests w @ [NotionUpdatePage pageId props],
        patched := patched w @ (case update_outcome sv pageId props of None \<Rightarrow> [(pageId, props)] | Some e \<Rightarrow> [])\<rparr>)"
  by (simp add: updatePage_def bind_apply request_run throw_def split: option.splits)

lemma put_context_run:
  "put_context sv key ctx w =
     ((case put_outcome sv of None \<Rightarrow> Inr () | Some e \<Rightarrow> Inl e),
      w\<lparr>state := (state w)\<lparr>threadContexts := (threadContexts (state w))(key \<mapsto> ctx)\<rparr>,
        storage := (case put_outcome sv of
                      None \<Rightarrow> Some ((state w)\<lparr>threadContexts := (threadContexts (state w))(key \<mapsto> ctx)\<rparr>)
                    | Some e \<Rightarrow> storage w)\<rparr>)"
  by (simp add: put_context_def bind_apply this_state_def updateState_def Let_def split: option.splits)

lemma sends_onlyD:
  "sends_only m \<Longrightarrow> \<exists>rs. \<forall>w1. m w1 = (fst (m w), w1\<lparr>requests := requests w1 @ rs\<rparr>)"
  unfolding sends_only_def by (metis fst_conv)

lemma sends_only_ret: "sends_only (ret x)"
  unfolding sends_only_def ret_def by (rule exI[of _ "Inr x"], rule exI[of _ "[]"]) simp

lemma sends_only_bind:
  assumes "sends_only m" and "\<And>x. sends_only (f x)"
  shows "sends_only (bind m f)"
proof -
  from assms(1) obtain r rs where m: "\<forall>w. m w = (r, w\<lparr>requests := requests w @ rs\<rparr>)"
    unfolding sends_only_def by blast
  show ?thesis
  proof (cases r)
    case (Inl e)
    then show ?thesis
      unfolding sends_only_def using m by (auto simp: bind_apply)
  next
    case (Inr x)
    from assms(2)[of x] obtain r2 rs2 where f: "\<forall>w. f x w = (r2, w\<lparr>requests := requests w @ rs2\<rparr>)"
      unfolding sends_only_def by blast
    have "\<forall>w. bind m f w = (r2, w\<lparr>requests := requests w @ (rs @ rs2)\<rparr>)"
      using m f Inr by (simp add: bind_apply)
    then show ?thesis
      unfolding sends_only_def by blast
  qed
qed

lemma sends_only_query: "sends_only (queryDatabaseWithProperties sv db flt)"
  unfolding sends_only_def
  by (rule exI[of _ "query_outcome sv db flt"], rule exI[of _ "[NotionQuery db flt]"])
     (simp add: queryDatabaseWithProperties_def bind_apply request_run ret_def throw_def split: sum.splits)

lemma sends_only_searchByName: "sends_only (searchByName sv env q c)"
  unfolding searchByName_def Let_def
  by (intro sends_only_bind sends_only_query) (auto intro: sends_only_bind sends_only_query sends_only_ret)

lemma sends_only_searchForDuplicates: "sends_only (searchForDuplicates sv env nm c)"
  unfolding searchForDuplicates_def
  by (intro sends_only_bind sends_only_searchByName sends_only_ret)

lemma searchForDuplicates_anywhere:
  assumes "fst (searchForDuplicates sv env nm c w) = r"
  shows "\<exists>rs. \<forall>w1. searchForDuplicates sv env nm c w1 = (r, w1\<lparr>requests := requests w1 @ rs\<rparr>)"
  using sends_onlyD[OF sends_only_searchForDuplicates, of sv env nm c w] assms by simp

lemma fileToNotion_is_createPage:
  "\<exists>props. fileToNotion sv env cls
               = createPage sv (page_kind (category cls)) (getDatabaseId (category cls) env) props
      \<and> (''Name'', title_value (name cls)) \<in> set props"
proof (cases "category cls")
  case person
  then show ?thesis
    by (simp add: fileToNotion_def Let_def page_kind_def createPerson_def)
       ((rule exI, rule conjI, rule refl, simp)+)
next
  case project
  then show ?thesis
    by (simp add: fileToNotion_def Let_def page_kind_def createProject_def)
       ((rule exI, rule conjI, rule refl, simp)+)
next
  case idea
  then show ?thesis
    by (simp add: fileToNotion_def Let_def page_kind_def createIdea_def)
       ((rule exI, rule conjI, rule refl, simp)+)
next
  case admin
  then show ?thesis
    by (simp add: fileToNotion_def Let_def page_kind_def createAdmin_def split del: if_split)
       ((rule exI, rule conjI, rule refl, simp)+)
qed

text \<open>The parts of \<^verbatim>\<open>processNewMessage\<close>, run.\<close>

lemma report_error_run:
  "report_error sv msg e w =
     (Inr (), w\<lparr>requests := requests w @
        [SlackPostMessage (ev_channel msg) (''Error processing message: '' @ message e) (Some (ev_ts msg))]\<rparr>)"
  unfolding report_error_def
  by (simp add: try_catch_apply postMessage_run ret_def split: option.splits)

lemma processNewMessage_run:
  "processNewMessage sv env msg w =
     (case capture_body sv env msg
             (w\<lparr>requests := requests w @ [SlackAddReaction (ev_channel msg) (ev_ts msg) ''white_check_mark'']\<rparr>) of
        (Inl e, w2) \<Rightarrow> report_error sv msg e w2
      | (Inr x, w2) \<Rightarrow> (Inr x, w2))"
  unfolding processNewMessage_def
  by (simp add: bind_apply try_catch_apply addReaction_run ret_def split: option.splits)

lemma capture_body_run:
  "capture_body sv env msg w =
     (case classify_outcome sv (ev_text msg) of
        Inl e \<Rightarrow> (Inl e, w\<lparr>requests := requests w @ [OracleClassify (ev_text msg)]\<rparr>)
      | Inr cls \<Rightarrow>
          (case createInboxLog sv (inbox_entry sv msg cls) (NOTION_DB_INBOX_LOG env)
                  (w\<lparr>requests := requests w @ [OracleClassify (ev_text msg)]\<rparr>) of
             (Inl e, w2) \<Rightarrow> (Inl e, w2)
           | (Inr pid, w2) \<Rightarrow> after_log sv env msg cls w2))"
  unfolding capture_body_def
  by (simp add: bind_apply classify_run split: sum.splits)

lemma createInboxLog_run:
  "\<exists>props. \<forall>w. createInboxLog sv d db w = createPage sv InboxLogPage db props w"
  unfolding createInboxLog_def by blast


subsection \<open>Strings\<close>


lemma includes_sublist: "includes_str s t \<longleftrightarrow> sublist t s"
  by (induction s) (auto simp: sublist_Cons_right)

lemma length_toLowerCase: "length (toLowerCase s) = length s"
  by (simp add: toLowerCase_def)

subsection \<open>The similarity score\<close>

lemma title_loop_eq:
  "title_loop q c pages acc =
     acc @ map (\<lambda>p. \<lparr>sr_page = p, sr_category = c, sr_name = extractName p,
                      sr_matchType = (if calculateSimilarity q (extractName p) = 1 then exact_match else partial_match),
                      sr_score = calculateSimilarity q (extractName p)\<rparr>)
             (filter (\<lambda>p. calculateSimilarity q (extractName p) > 0) pages)"
  by (induction pages arbitrary: acc) (auto simp: Let_def)

lemma nickname_scan_eq:
  "nickname_scan q c page ns acc =
     acc @ (case map_option
              (\<lambda>n. \<lparr>sr_page = page, sr_category = c, sr_name = extractName page,
                     sr_matchType = nickname_match, sr_score = calculateSimilarity q n * 0.9\<rparr>)
              (find (\<lambda>n. calculateSimilarity q n > 0.5) ns) of None \<Rightarrow> [] | Some r \<Rightarrow> [r])"
  by (induction ns) (auto simp: Let_def)

lemma nickname_loop_eq:
  "nickname_loop q c pages acc = acc @ List.map_filter (nickname_match_of q c) pages"
proof (induction pages arbitrary: acc)
  case Nil
  then show ?case by (simp add: List.map_filter_simps)
next
  case (Cons p ps)
  show ?case
    by (simp add: Cons.IH nickname_scan_eq nickname_match_of_def List.map_filter_simps split: option.splits)
qed

lemma similarity_john_smith: "calculateSimilarity ''john smith'' ''smith jane bob'' = 4 / 15"
  by (simp add: calculateSimilarity_def toLowerCase_def toLowerCase_char_def
      split_whitespace_def isWhiteSpace_def)

lemma spec_similarity_john_smith: "spec_similarity ''john smith'' ''smith jane bob'' = 2 / 5"
  by (simp add: spec_similarity_def toLowerCase_def toLowerCase_char_def
      split_whitespace_def isWhiteSpace_def)

text \<open>
  C3, as stated, fails. The query \<open>john smith\<close> against the candidate \<open>smith jane bob\<close>:
  neither contains the other, one of the two query words matches, and the code divides
  by the larger word count (three), giving 4/15; "the fraction of query words that match,
  scaled by 0.8" is 2/5.
\<close>

theorem similarity_is_not_fraction_of_query_words:
  "calculateSimilarity ''john smith'' ''smith jane bob'' = 4 / 15
   \<and> spec_similarity ''john smith'' ''smith jane bob'' = 2 / 5
   \<and> calculateSimilarity ''john smith'' ''smith jane bob''
       \<noteq> spec_similarity ''john smith'' ''smith jane bob''"
  by (simp add: similarity_john_smith spec_similarity_john_smith)

text \<open>
  C3, amended. For every query and candidate name the score is 1 when the two are equal
  up to case; otherwise the shorter length over the longer when one contains the other
  (either way round, up to case); otherwise the number of query words that contain, or
  are contained in, some word of the candidate, divided by the larger of the two word
  counts and scaled by 0.8, which is 0 when no word matches. In particular the score of
  \<open>Sarah\<close> against \<open>Sarah Connor\<close> is the quotient of their lengths, and of \<open>Sarah\<close> against
  itself exactly 1.
\<close>

theorem calculateSimilarity_cases:
  "calculateSimilarity q c =
     (let words_q = split_whitespace (toLowerCase q);
          words_c = split_whitespace (toLowerCase c);
          common = filter (\<lambda>w. list_ex (\<lambda>w2. sublist w w2 \<or> sublist w2 w) words_c) words_q
      in if toLowerCase q = toLowerCase c then 1
         else if sublist (toLowerCase c) (toLowerCase q) \<or> sublist (toLowerCase q) (toLowerCase c)
         then real (min (length q) (length c)) / real (max (length q) (length c))
         else if common = [] then 0
         else real (length common) / real (max (length words_q) (length words_c)) * 0.8)
   \<and> calculateSimilarity ''Sarah'' ''Sarah Connor'' = real (length ''Sarah'') / real (length ''Sarah Connor'')
   \<and> calculateSimilarity ''Sarah'' ''Sarah'' = 1"
proof -
  have ex: "calculateSimilarity ''Sarah'' ''Sarah Connor''
            = real (length ''Sarah'') / real (length ''Sarah Connor'')"
    by (simp add: calculateSimilarity_def toLowerCase_def toLowerCase_char_def)
  have same: "calculateSimilarity ''Sarah'' ''Sarah'' = 1"
    by (simp add: calculateSimilarity_def)
  show ?thesis
    unfolding ex same
    by (simp add: calculateSimilarity_def Let_def includes_sublist length_toLowerCase)
qed

subsection \<open>The name search\<close>

lemma title_loop_empty:
  "title_loop q c pages [] = [] \<longleftrightarrow> list_all (\<lambda>p. \<not> calculateSimilarity q (extractName p) > 0) pages"
  by (simp add: title_loop_eq filter_empty_conv list_all_iff)

lemma nickname_match_of_props:
  "list_all (\<lambda>r. sr_matchType r = nickname_match
                \<and> list_ex (\<lambda>n. calculateSimilarity q n > 0.5 \<and> sr_score r = calculateSimilarity q n * 0.9)
                     (extractNicknames (sr_page r)))
     (List.map_filter (nickname_match_of q c) people)"
proof -
  have "\<And>p r. nickname_match_of q c p = Some r \<Longrightarrow>
          sr_matchType r = nickname_match
          \<and> list_ex (\<lambda>n. calculateSimilarity q n > 0.5 \<and> sr_score r = calculateSimilarity q n * 0.9)
              (extractNicknames (sr_page r))"
    by (auto simp: nickname_match_of_def list_ex_iff find_Some_iff)
  then show ?thesis
    by (auto simp: list_all_iff List.map_filter_def)
qed

lemma nickname_pages:
  "map sr_page (List.map_filter (nickname_match_of q c) people)
   = filter (\<lambda>p. list_ex (\<lambda>n. calculateSimilarity q n > 0.5) (extractNicknames p)) people"
proof (induction people)
  case Nil
  then show ?case by (simp add: List.map_filter_simps)
next
  case (Cons p ps)
  then show ?case
    by (auto simp: List.map_filter_simps nickname_match_of_def list_ex_iff find_None_iff find_Some_iff
        split: option.splits)
qed

text \<open>
  C8. Let the title query return \<open>pages\<close> and the unfiltered query of the same database
  return \<open>allPeople\<close>. Only for the person category, and only when no returned title
  scores above 0, \<open>searchByName\<close> sends the second, unfiltered query and answers with
  nickname matches: from each person record, in order, at most one match, taken from its
  first nickname whose similarity to the query (the same \<open>calculateSimilarity\<close>) is above
  0.5, with that similarity times 0.9 as its score. In every other case the answer is the
  title matches alone, none of them a nickname match, and one query is sent. Either way
  the answer is sorted by descending score.
\<close>

theorem searchByName_nickname_pass:
  assumes title: "query_outcome sv (getDatabaseId c env) (Some q) = Inr pages"
    and everyone: "query_outcome sv (getDatabaseId c env) None = Inr allPeople"
  shows
    "searchByName sv env q c w =
       (if c = person \<and> list_all (\<lambda>p. \<not> calculateSimilarity q (extractName p) > 0) pages
        then (Inr (sort_by_score (List.map_filter (nickname_match_of q c) allPeople)),
              w\<lparr>requests := requests w @ [NotionQuery (getDatabaseId c env) (Some q),
                                           NotionQuery (getDatabaseId c env) None]\<rparr>)
        else (Inr (sort_by_score (title_loop q c pages [])),
              w\<lparr>requests := requests w @ [NotionQuery (getDatabaseId c env) (Some q)]\<rparr>))
     \<and> list_all (\<lambda>r. sr_matchType r \<noteq> nickname_match) (title_loop q c pages [])
     \<and> list_all (\<lambda>r. sr_matchType r = nickname_match
                  \<and> list_ex (\<lambda>n. calculateSimilarity q n > 0.5
                                 \<and> sr_score r = calculateSimilarity q n * 0.9)
                       (extractNicknames (sr_page r)))
         (List.map_filter (nickname_match_of q c) allPeople)
     \<and> map sr_page (List.map_filter (nickname_match_of q c) allPeople)
         = filter (\<lambda>p. list_ex (\<lambda>n. calculateSimilarity q n > 0.5) (extractNicknames p)) allPeople"
proof -
  define db where "db = getDatabaseId c env"
  have q1: "\<And>w. queryDatabaseWithProperties sv db (Some q) w
              = (Inr pages, w\<lparr>requests := requests w @ [NotionQuery db (Some q)]\<rparr>)"
    using title by (simp add: db_def queryDatabaseWithProperties_ok)
  have q2: "\<And>w. queryDatabaseWithProperties sv db None w
              = (Inr allPeople, w\<lparr>requests := requests w @ [NotionQuery db None]\<rparr>)"
    using everyone by (simp add: db_def queryDatabaseWithProperties_ok)
  have run: "searchByName sv env q c w =
       (if c = person \<and> list_all (\<lambda>p. \<not> calculateSimilarity q (extractName p) > 0) pages
        then (Inr (sort_by_score (List.map_filter (nickname_match_of q c) allPeople)),
              w\<lparr>requests := requests w @ [NotionQuery db (Some q), NotionQuery db None]\<rparr>)
        else (Inr (sort_by_score (title_loop q c pages [])),
              w\<lparr>requests := requests w @ [NotionQuery db (Some q)]\<rparr>))"
  proof (cases "c = person \<and> title_loop q c pages [] = []")
    case True
    then have cp: "c = person" and te: "title_loop q person pages [] = []"
      by auto
    have "searchByName sv env q c w =
            (Inr (sort_by_score (List.map_filter (nickname_match_of q c) allPeople)),
             w\<lparr>requests := requests w @ [NotionQuery db (Some q), NotionQuery db None]\<rparr>)"
      unfolding searchByName_def Let_def db_def[symmetric]
      by (simp add: cp te bind_def q1 q2 ret_def nickname_loop_eq)
    then show ?thesis
      using te by (simp add: cp title_loop_empty)
  next
    case False
    have "searchByName sv env q c w =
            (Inr (sort_by_score (title_loop q c pages [])),
             w\<lparr>requests := requests w @ [NotionQuery db (Some q)]\<rparr>)"
      unfolding searchByName_def Let_def db_def[symmetric]
      using False by (auto simp: bind_def q1 ret_def)
    moreover have "\<not> (c = person \<and> list_all (\<lambda>p. \<not> calculateSimilarity q (extractName p) > 0) pages)"
      using False by (simp add: title_loop_empty)
    ultimately show ?thesis
      by (simp only: if_False)
  qed
  have titles: "list_all (\<lambda>r. sr_matchType r \<noteq> nickname_match) (title_loop q c pages [])"
    by (simp add: title_loop_eq list_all_iff)
  show ?thesis
    using run titles nickname_match_of_props[of q c allPeople] nickname_pages[of q c allPeople]
    unfolding db_def by blast
qed

lemma extractNicknames_sally: "extractNicknames sally_page = [''Sal'', ''Sally'']"
  by (simp add: extractNicknames_def sally_page_def split_comma_def trim_def isWhiteSpace_def)

lemma extractName_sally: "extractName sally_page = ''Sarah Connor''"
  by (simp add: extractName_def sally_page_def is_title_def)

lemma similarity_sally_sal: "calculateSimilarity ''sally'' ''Sal'' = 3 / 5"
  by (simp add: calculateSimilarity_def toLowerCase_def toLowerCase_char_def)

text \<open>
  The query \<open>sally\<close> has no title match; the one person has the nicknames \<open>Sal\<close> and
  \<open>Sally\<close>. The first already scores 3/5, so it is the one taken, at 27/50.
\<close>

theorem searchByName_nickname_pass_witness:
  "query_outcome nickname_services (getDatabaseId person plain_env) (Some ''sally'') = Inr []
   \<and> query_outcome nickname_services (getDatabaseId person plain_env) None = Inr [sally_page]
   \<and> searchByName nickname_services plain_env ''sally'' person empty_world =
       (Inr [\<lparr>sr_page = sally_page, sr_category = person, sr_name = ''Sarah Connor'',
              sr_matchType = nickname_match, sr_score = 27 / 50\<rparr>],
        empty_world\<lparr>requests := [NotionQuery ''db-people'' (Some ''sally''), NotionQuery ''db-people'' None]\<rparr>)"
proof -
  have h1: "query_outcome nickname_services (getDatabaseId person plain_env) (Some ''sally'') = Inr []"
    by (simp add: nickname_services_def)
  have h2: "query_outcome nickname_services (getDatabaseId person plain_env) None = Inr [sally_page]"
    by (simp add: nickname_services_def)
  show ?thesis
    using searchByName_nickname_pass[OF h1 h2, of empty_world] h1 h2
    by (simp add: List.map_filter_simps nickname_match_of_def extractNicknames_sally extractName_sally
        similarity_sally_sal sort_by_score_def getDatabaseId_def plain_env_def empty_world_def)
qed

subsection \<open>The webhook signature\<close>

lemma parseInt10_examples:
  "parseInt10 ''abc'' = NaN"
  "parseInt10 [] = NaN"
  "parseInt10 ''+'' = NaN"
  "parseInt10 ''  -12abc'' = Num (- 12)"
  "parseInt10 ''1705312800'' = Num 1705312800"
  by (simp_all add: parseInt10_def isWhiteSpace_def digit_value_def)

lemma verifySignature_numeric_timestamp:
  assumes "parseInt10 timestamp = Num t"
  shows "verifySignature hmac now_millis body timestamp signature signingSecret
         \<longleftrightarrow> \<bar>now_millis div 1000 - t\<bar> \<le> 300
             \<and> signature = ''v0='' @ concat (map hex_byte (hmac signingSecret (''v0:'' @ timestamp @ '':'' @ body)))"
  using assms
  by (auto simp: verifySignature_def Let_def minus_Number_def abs_Number_def greater_Number_def)

text \<open>
  C10. When \<^verbatim>\<open>parseInt(timestamp, 10)\<close> is NaN (the header has no leading number), the
  comparison with five minutes is false whatever the clock says, so the freshness check
  is passed over: \<open>verifySignature\<close> is true exactly when the given signature equals
  \<open>v0=\<close> followed by the hex digest of HMAC-SHA256, under the signing secret, of
  \<open>v0:\<close>, the timestamp as it was sent, \<open>:\<close> and the body.
\<close>

theorem verifySignature_NaN_timestamp:
  assumes "parseInt10 timestamp = NaN"
  shows "verifySignature hmac now_millis body timestamp signature signingSecret
         \<longleftrightarrow> signature = ''v0='' @ concat (map hex_byte (hmac signingSecret (''v0:'' @ timestamp @ '':'' @ body)))"
  using assms
  by (auto simp: verifySignature_def Let_def minus_Number_def abs_Number_def greater_Number_def)

theorem verifySignature_NaN_timestamp_witness:
  "parseInt10 ''abc'' = NaN
   \<and> verifySignature (\<lambda>key txt. [1, 171]) 1705312800000 ''{}'' ''abc'' ''v0=01ab'' ''secret''"
  using verifySignature_NaN_timestamp
          [of "''abc''" "\<lambda>key txt. [1, 171]" 1705312800000 "''{}''" "''v0=01ab''" "''secret''"]
  by (simp add: parseInt10_examples hex_byte_def hex_digit_def)

subsection \<open>The thread-intent call\<close>

text \<open>
  C9, as stated, fails: content that \<^verbatim>\<open>JSON.parse\<close> rejects makes
  \<open>detectThreadIntent\<close> throw the SyntaxError; nothing in the function catches it.
\<close>

theorem detectThreadIntent_unparseable_throws:
  "detectThreadIntent toy_parse (FirstChoice (Some ''Sure, here you go'') None)
     = Inl (SyntaxError ''Unexpected token'')"
  by (simp add: detectThreadIntent_def truthy_def toy_parse_def)

text \<open>
  C9, amended. For a response with content: when the content is not parseable JSON the
  SyntaxError of \<^verbatim>\<open>JSON.parse\<close> propagates to the caller; when it parses to a value other
  than \<^verbatim>\<open>null\<close> whose \<^verbatim>\<open>intent\<close> member is not one of the six intent names (missing,
  of another type, or another string), the result is the unclear intent
  \<^verbatim>\<open>{ intent: 'unclear', details: {}, confidence: 0.5 }\<close>.
\<close>

theorem detectThreadIntent_malformed:
  assumes "body \<noteq> []"
  shows "(JSON_parse body = None \<longrightarrow>
            detectThreadIntent JSON_parse (FirstChoice (Some body) reasoning)
              = Inl (SyntaxError ''Unexpected token''))
       \<and> (\<forall>result. JSON_parse body = Some result \<and> result \<noteq> JNull
              \<and> \<not> list_ex (\<lambda>s. member result ''intent'' = Inr (Some (JString s))) validIntents \<longrightarrow>
            detectThreadIntent JSON_parse (FirstChoice (Some body) reasoning) = Inr unclear_intent)"
proof (intro conjI allI impI)
  assume "JSON_parse body = None"
  then show "detectThreadIntent JSON_parse (FirstChoice (Some body) reasoning)
              = Inl (SyntaxError ''Unexpected token'')"
    using assms by (simp add: detectThreadIntent_def truthy_def)
next
  fix result
  assume a: "JSON_parse body = Some result \<and> result \<noteq> JNull
              \<and> \<not> list_ex (\<lambda>s. member result ''intent'' = Inr (Some (JString s))) validIntents"
  then obtain i where i: "member result ''intent'' = Inr i"
    by (cases result) (auto simp: member_def)
  have "\<not> array_includes validIntents i"
    using a i by (auto simp: array_includes_def list_ex_iff split: option.splits Json.splits)
  then show "detectThreadIntent JSON_parse (FirstChoice (Some body) reasoning) = Inr unclear_intent"
    using assms a i by (simp add: detectThreadIntent_def truthy_def)
qed

theorem detectThreadIntent_malformed_witness:
  "''{}'' \<noteq> [] \<and> ''Sure'' \<noteq> []
   \<and> toy_parse ''Sure'' = None
   \<and> detectThreadIntent toy_parse (FirstChoice (Some ''Sure'') None) = Inl (SyntaxError ''Unexpected token'')
   \<and> toy_parse ''{}'' = Some (JObject []) \<and> JObject [] \<noteq> JNull
   \<and> detectThreadIntent toy_parse (FirstChoice (Some ''{}'') None) = Inr unclear_intent"
proof -
  have a: "toy_parse ''Sure'' = None" and b: "toy_parse ''{}'' = Some (JObject [])"
    by (simp_all add: toy_parse_def)
  have c: "\<not> list_ex (\<lambda>s. member (JObject []) ''intent'' = Inr (Some (JString s))) validIntents"
    by (simp add: member_def validIntents_def)
  from detectThreadIntent_malformed[of "''Sure''" toy_parse None] a
  have 1: "detectThreadIntent toy_parse (FirstChoice (Some ''Sure'') None) = Inl (SyntaxError ''Unexpected token'')"
    by simp
  from detectThreadIntent_malformed[of "''{}''" toy_parse None] b c
  have 2: "detectThreadIntent toy_parse (FirstChoice (Some ''{}'') None) = Inr unclear_intent"
    by simp
  show ?thesis using 1 2 a b by simp
qed

subsection \<open>The capture path\<close>


lemma weak_top:
  "list_all (\<lambda>d. \<not> sr_score d > 0.8) dups \<Longrightarrow> \<not> (length dups > 0 \<and> sr_score (hd dups) > 0.8)"
  by (cases dups) auto

lemma page_kind_not_log: "page_kind c \<noteq> InboxLogPage"
  by (cases c) (simp_all add: page_kind_def)


text \<open>
  C1, amended. Let the classification have confidence at least 0.6, the audit-log write
  succeed, the duplicate search return no result scoring above 0.8, the record creation
  return \<open>pid\<close>, and the confirmation post and the storage write succeed. Then the capture
  returns normally, exactly one record has been added to the destination stores, in the
  database of the classification's category and with id \<open>pid\<close>, nothing is patched, and
  the thread-context map is the old one with, under the message's id, a context whose
  \<open>notionPageId\<close> is \<open>pid\<close>; the durable copy is the state in memory.
\<close>

theorem confident_capture_files_once:
  assumes c: "classify_outcome sv (ev_text msg) = Inr cls"
    and hi: "confidence cls \<ge> CONFIDENCE_THRESHOLD"
    and audit: "fst (createInboxLog sv (inbox_entry sv msg cls) (NOTION_DB_INBOX_LOG env) w) = Inr pid0"
    and s: "fst (searchForDuplicates sv env (name cls) (category cls) w) = Inr dups"
    and weak: "list_all (\<lambda>d. \<not> sr_score d > 0.8) dups"
    and f: "fst (fileToNotion sv env cls w) = Inr pid"
    and post: "post_outcome sv (ev_channel msg)
                 (formatConfirmation (category_string (category cls)) (name cls) (confidence cls)
                    @ note_similar dups) (Some (ev_ts msg)) = None"
    and put: "put_outcome sv = None"
    and run: "processNewMessage sv env msg w = (r, w')"
  shows "r = Inr ()
       \<and> (\<exists>props. destination_records w' = destination_records w @
               [\<lparr>r_kind = page_kind (category cls), r_database = getDatabaseId (category cls) env,
                 r_id = pid, r_properties = props\<rparr>]
             \<and> (''Name'', title_value (name cls)) \<in> set props)
       \<and> patched w' = patched w
       \<and> threadContexts (state w') = (threadContexts (state w))(ev_ts msg \<mapsto>
            \<lparr>originalMessage = ev_text msg, classification = cls, notionPageId = Some pid,
             potentialDuplicate = None, messages = [], createdAt = now_iso sv\<rparr>)
       \<and> storage w' = Some (state w')"
proof -
  obtain props0 where p0: "\<And>w. createInboxLog sv (inbox_entry sv msg cls) (NOTION_DB_INBOX_LOG env) w
                            = createPage sv InboxLogPage (NOTION_DB_INBOX_LOG env) props0 w"
    using createInboxLog_run by blast
  have a: "create_outcome sv (NOTION_DB_INBOX_LOG env) props0 = Inr pid0"
    using audit by (simp add: p0 createPage_run)
  obtain rs where search:
    "\<And>w1. searchForDuplicates sv env (name cls) (category cls) w1 = (Inr dups, w1\<lparr>requests := requests w1 @ rs\<rparr>)"
    using searchForDuplicates_anywhere[OF s] by blast
  obtain props where p: "fileToNotion sv env cls
               = createPage sv (page_kind (category cls)) (getDatabaseId (category cls) env) props"
    and n: "(''Name'', title_value (name cls)) \<in> set props"
    using fileToNotion_is_createPage by blast
  have co: "create_outcome sv (getDatabaseId (category cls) env) props = Inr pid"
    using f by (simp add: p createPage_run)
  have nlo: "\<not> confidence cls < CONFIDENCE_THRESHOLD"
    using hi by simp
  have al: "\<And>w1. after_log sv env msg cls w1
              = file_new_capture sv env msg cls dups (w1\<lparr>requests := requests w1 @ rs\<rparr>)"
    unfolding after_log_def using weak_top[OF weak]
    by (simp only: nlo if_False bind_apply search prod.case sum.case)
  have fnc: "\<And>w1. file_new_capture sv env msg cls dups w1 =
      (Inr (), w1\<lparr>requests := requests w1 @ [NotionCreatePage (getDatabaseId (category cls) env) props]
                   @ (if confidence cls = 1
                      then [SlackAddReaction (ev_channel msg) (ev_ts msg) ''100''] else [])
                   @ [SlackPostMessage (ev_channel msg)
                        (formatConfirmation (category_string (category cls)) (name cls) (confidence cls)
                           @ note_similar dups) (Some (ev_ts msg))],
                 created := created w1 @
                   [\<lparr>r_kind = page_kind (category cls), r_database = getDatabaseId (category cls) env,
                     r_id = pid, r_properties = props\<rparr>],
                 state := (state w1)\<lparr>threadContexts := (threadContexts (state w1))(ev_ts msg \<mapsto>
                     \<lparr>originalMessage = ev_text msg, classification = cls, notionPageId = Some pid,
                      potentialDuplicate = None, messages = [], createdAt = now_iso sv\<rparr>)\<rparr>,
                 storage := Some ((state w1)\<lparr>threadContexts := (threadContexts (state w1))(ev_ts msg \<mapsto>
                     \<lparr>originalMessage = ev_text msg, classification = cls, notionPageId = Some pid,
                      potentialDuplicate = None, messages = [], createdAt = now_iso sv\<rparr>)\<rparr>)\<rparr>)"
  proof -
    fix w1
    show "?thesis w1"
    proof (cases "confidence cls = 1")
      case True
      from post have "post_outcome sv (ev_channel msg)
             (formatConfirmation (category_string (category cls)) (name cls) 1 @ note_similar dups)
             (Some (ev_ts msg)) = None"
        by (simp add: True)
      then show ?thesis
        by (cases w1)
           (simp add: True file_new_capture_def p bind_apply createPage_run co try_catch_apply
            addReaction_run postMessage_run put_context_run put ret_def split: option.splits)
    next
      case False
      with post show ?thesis
        by (cases w1)
           (simp add: file_new_capture_def p bind_apply createPage_run co
            postMessage_run put_context_run put ret_def)
    qed
  qed
  show ?thesis
    using run fnc[of "w\<lparr>requests := requests w @ [SlackAddReaction (ev_channel msg) (ev_ts msg) ''white_check_mark'',
                          OracleClassify (ev_text msg),
                          NotionCreatePage (NOTION_DB_INBOX_LOG env) props0] @ rs,
                      created := created w @ [\<lparr>r_kind = InboxLogPage, r_database = NOTION_DB_INBOX_LOG env,
                                               r_id = pid0, r_properties = props0\<rparr>]\<rparr>"] n
    apply (simp only: processNewMessage_run capture_body_run c sum.case p0 createPage_run a prod.case al)
    apply (cases w)
    apply (auto simp: destination_records_def page_kind_not_log)
    done
qed

lemma search_nothing:
  "query_outcome sv = (\<lambda>_ _. Inr []) \<Longrightarrow> searchForDuplicates sv env nm c w
     = (Inr [], w\<lparr>requests := requests w @
         (if c = person then [NotionQuery (getDatabaseId c env) (Some nm), NotionQuery (getDatabaseId c env) None]
          else [NotionQuery (getDatabaseId c env) (Some nm)])\<rparr>)"
  by (simp add: searchForDuplicates_def searchByName_def Let_def bind_apply
      queryDatabaseWithProperties_ok ret_def sort_by_score_def)

lemma sarah_facts:
  "confidence sarah \<ge> CONFIDENCE_THRESHOLD" "\<not> confidence sarah < CONFIDENCE_THRESHOLD"
  "category sarah = person" "name sarah = ''Sarah''" "confidence sarah \<noteq> 1"
  by (simp_all add: sarah_def CONFIDENCE_THRESHOLD_def)


lemma slack_down_facts:
  "classify_outcome slack_down t = Inr sarah"
  "create_outcome slack_down db props = Inr ''page-1''"
  "post_outcome slack_down chan txt thread = Some (Error ''Slack API HTTP error: 503'')"
  "query_outcome slack_down = (\<lambda>_ _. Inr [])"
  by (simp_all add: slack_down_def plain_services_def)

lemma store_down_facts:
  "classify_outcome store_down t = Inr vague"
  "create_outcome store_down db props = Inl (Error ''Notion API error: 500 - down'')"
  by (simp_all add: store_down_def plain_services_def)

text \<open>
  C1, as stated, fails. A capture classified at 0.91 with no duplicate at all: the person
  record is created, Slack then refuses the confirmation, the \<^verbatim>\<open>catch\<close> block
  reports the error, and no ThreadContext is stored for the thread.
\<close>

theorem capture_confirmation_failure_leaves_no_context:
  "classify_outcome slack_down (ev_text capture) = Inr sarah
   \<and> confidence sarah \<ge> CONFIDENCE_THRESHOLD
   \<and> fst (searchForDuplicates slack_down plain_env (name sarah) (category sarah) empty_world) = Inr []
   \<and> fst (processNewMessage slack_down plain_env capture empty_world) = Inr ()
   \<and> map r_id (destination_records (snd (processNewMessage slack_down plain_env capture empty_world)))
       = [''page-1'']
   \<and> threadContexts (state (snd (processNewMessage slack_down plain_env capture empty_world))) (ev_ts capture)
       = None"
proof -
  have s: "\<And>w. searchForDuplicates slack_down plain_env ''Sarah'' person w
             = (Inr [], w\<lparr>requests := requests w @ [NotionQuery (getDatabaseId person plain_env) (Some ''Sarah''),
                                                       NotionQuery (getDatabaseId person plain_env) None]\<rparr>)"
    by (simp add: search_nothing slack_down_facts)
  have "fst (processNewMessage slack_down plain_env capture empty_world) = Inr ()
      \<and> map r_id (destination_records (snd (processNewMessage slack_down plain_env capture empty_world))) = [''page-1'']
      \<and> state (snd (processNewMessage slack_down plain_env capture empty_world)) = state empty_world"
    by (simp add: processNewMessage_run capture_body_run slack_down_facts createInboxLog_def createPage_run
        after_log_def sarah_facts s file_new_capture_def fileToNotion_def createPerson_def Let_def
        bind_apply postMessage_run report_error_run destination_records_def empty_world_def)
  then show ?thesis
    by (simp add: slack_down_facts sarah_facts s empty_world_def)
qed


text \<open>
  C7. Let a capture's classification call throw \<open>e\<close>, or its audit-log write throw \<open>e\<close>,
  or (confident, without a strong duplicate) its record creation throw \<open>e\<close>. Then the
  capture returns normally, the thread-context map is unchanged in memory and in durable
  storage, and the last request sent is the error message \<open>Error processing message: \<close>
  followed by the message of \<open>e\<close>, to the channel, in the thread of the captured message.
\<close>

theorem capture_failure_reported_no_context:
  assumes "classify_outcome sv (ev_text msg) = Inl e
           \<or> (\<exists>cls. classify_outcome sv (ev_text msg) = Inr cls
                \<and> (fst (createInboxLog sv (inbox_entry sv msg cls) (NOTION_DB_INBOX_LOG env) w) = Inl e
                   \<or> (\<exists>pid dups.
                         fst (createInboxLog sv (inbox_entry sv msg cls) (NOTION_DB_INBOX_LOG env) w) = Inr pid
                       \<and> confidence cls \<ge> CONFIDENCE_THRESHOLD
                       \<and> fst (searchForDuplicates sv env (name cls) (category cls) w) = Inr dups
                       \<and> list_all (\<lambda>d. \<not> sr_score d > 0.8) dups
                       \<and> fst (fileToNotion sv env cls w) = Inl e)))"
    and run: "processNewMessage sv env msg w = (r, w')"
  shows "r = Inr ()
       \<and> state w' = state w
       \<and> storage w' = storage w
       \<and> last (requests w')
           = SlackPostMessage (ev_channel msg) (''Error processing message: '' @ message e) (Some (ev_ts msg))"
  using assms(1)
proof (elim disjE exE conjE)
  assume "classify_outcome sv (ev_text msg) = Inl e"
  then show ?thesis
    using run by (auto simp: processNewMessage_run capture_body_run report_error_run)
next
  fix cls
  assume c: "classify_outcome sv (ev_text msg) = Inr cls"
    and i: "fst (createInboxLog sv (inbox_entry sv msg cls) (NOTION_DB_INBOX_LOG env) w) = Inl e"
  obtain props0 where p0: "\<And>w. createInboxLog sv (inbox_entry sv msg cls) (NOTION_DB_INBOX_LOG env) w
                            = createPage sv InboxLogPage (NOTION_DB_INBOX_LOG env) props0 w"
    using createInboxLog_run by blast
  have a: "create_outcome sv (NOTION_DB_INBOX_LOG env) props0 = Inl e"
    using i by (simp add: p0 createPage_run)
  show ?thesis
    using run
    by (simp only: processNewMessage_run capture_body_run c sum.case p0 createPage_run a prod.case
        report_error_run) auto
next
  fix cls pid dups
  assume c: "classify_outcome sv (ev_text msg) = Inr cls"
    and i: "fst (createInboxLog sv (inbox_entry sv msg cls) (NOTION_DB_INBOX_LOG env) w) = Inr pid"
    and hi: "confidence cls \<ge> CONFIDENCE_THRESHOLD"
    and s: "fst (searchForDuplicates sv env (name cls) (category cls) w) = Inr dups"
    and weak: "list_all (\<lambda>d. \<not> sr_score d > 0.8) dups"
    and f: "fst (fileToNotion sv env cls w) = Inl e"
  obtain props0 where p0: "\<And>w. createInboxLog sv (inbox_entry sv msg cls) (NOTION_DB_INBOX_LOG env) w
                            = createPage sv InboxLogPage (NOTION_DB_INBOX_LOG env) props0 w"
    using createInboxLog_run by blast
  have a: "create_outcome sv (NOTION_DB_INBOX_LOG env) props0 = Inr pid"
    using i by (simp add: p0 createPage_run)
  obtain rs where search:
    "\<And>w1. searchForDuplicates sv env (name cls) (category cls) w1 = (Inr dups, w1\<lparr>requests := requests w1 @ rs\<rparr>)"
    using searchForDuplicates_anywhere[OF s] by blast
  obtain props where p: "fileToNotion sv env cls
               = createPage sv (page_kind (category cls)) (getDatabaseId (category cls) env) props"
    using fileToNotion_is_createPage by blast
  have co: "create_outcome sv (getDatabaseId (category cls) env) props = Inl e"
    using f by (simp add: p createPage_run)
  have nlo: "\<not> confidence cls < CONFIDENCE_THRESHOLD"
    using hi by simp
  have al: "\<And>w1. after_log sv env msg cls w1
              = file_new_capture sv env msg cls dups (w1\<lparr>requests := requests w1 @ rs\<rparr>)"
    unfolding after_log_def using weak_top[OF weak]
    by (simp only: nlo if_False bind_apply search prod.case sum.case)
  have fnc: "\<And>w1. file_new_capture sv env msg cls dups w1 =
      (Inl e, w1\<lparr>requests := requests w1 @ [NotionCreatePage (getDatabaseId (category cls) env) props]\<rparr>)"
    by (simp add: file_new_capture_def p bind_apply createPage_run co)
  show ?thesis
    using run
    by (simp only: processNewMessage_run capture_body_run c sum.case p0 createPage_run a prod.case al fnc
        report_error_run) auto
qed

theorem capture_failure_reported_no_context_witness:
  "classify_outcome plain_services (ev_text capture) = Inl (Error ''OpenRouter API error: 500 - down'')
   \<and> fst (processNewMessage plain_services plain_env capture empty_world) = Inr ()
   \<and> state (snd (processNewMessage plain_services plain_env capture empty_world)) = state empty_world
   \<and> storage (snd (processNewMessage plain_services plain_env capture empty_world)) = storage empty_world
   \<and> last (requests (snd (processNewMessage plain_services plain_env capture empty_world)))
       = SlackPostMessage ''C1'' ''Error processing message: OpenRouter API error: 500 - down'' (Some ''100.1'')
   \<and> classify_outcome store_down (ev_text capture) = Inr vague
   \<and> fst (createInboxLog store_down (inbox_entry store_down capture vague) (NOTION_DB_INBOX_LOG plain_env) empty_world)
       = Inl (Error ''Notion API error: 500 - down'')
   \<and> state (snd (processNewMessage store_down plain_env capture empty_world)) = state empty_world
   \<and> last (requests (snd (processNewMessage store_down plain_env capture empty_world)))
       = SlackPostMessage ''C1'' ''Error processing message: Notion API error: 500 - down'' (Some ''100.1'')"
proof -
  have h1: "classify_outcome plain_services (ev_text capture) = Inl (Error ''OpenRouter API error: 500 - down'')"
    by (simp add: plain_services_def)
  have h2: "classify_outcome store_down (ev_text capture) = Inr vague"
    by (simp add: store_down_facts)
  have h3: "fst (createInboxLog store_down (inbox_entry store_down capture vague) (NOTION_DB_INBOX_LOG plain_env) empty_world)
       = Inl (Error ''Notion API error: 500 - down'')"
    by (simp add: createInboxLog_def createPage_run store_down_facts)
  from h2 h3 have d2: "classify_outcome store_down (ev_text capture) = Inl (Error ''Notion API error: 500 - down'')
           \<or> (\<exists>cls. classify_outcome store_down (ev_text capture) = Inr cls
                \<and> (fst (createInboxLog store_down (inbox_entry store_down capture cls) (NOTION_DB_INBOX_LOG plain_env) empty_world) = Inl (Error ''Notion API error: 500 - down'')
                   \<or> (\<exists>pid dups.
                         fst (createInboxLog store_down (inbox_entry store_down capture cls) (NOTION_DB_INBOX_LOG plain_env) empty_world) = Inr pid
                       \<and> confidence cls \<ge> CONFIDENCE_THRESHOLD
                       \<and> fst (searchForDuplicates store_down plain_env (name cls) (category cls) empty_world) = Inr dups
                       \<and> list_all (\<lambda>d. \<not> sr_score d > 0.8) dups
                       \<and> fst (fileToNotion store_down plain_env cls empty_world) = Inl (Error ''Notion API error: 500 - down''))))"
    by blast
  have r1: "processNewMessage plain_services plain_env capture empty_world
             = (fst (processNewMessage plain_services plain_env capture empty_world),
                snd (processNewMessage plain_services plain_env capture empty_world))"
    and r2: "processNewMessage store_down plain_env capture empty_world
             = (fst (processNewMessage store_down plain_env capture empty_world),
                snd (processNewMessage store_down plain_env capture empty_world))"
    by simp_all
  show ?thesis
    using capture_failure_reported_no_context[OF disjI1[OF h1] r1] capture_failure_reported_no_context[OF d2 r2] h1 h2 h3
    by (simp add: message_def capture_def)
qed


theorem confident_capture_files_once_witness:
  "classify_outcome filing_services (ev_text capture) = Inr sarah
   \<and> confidence sarah \<ge> CONFIDENCE_THRESHOLD
   \<and> fst (createInboxLog filing_services (inbox_entry filing_services capture sarah)
             (NOTION_DB_INBOX_LOG plain_env) empty_world) = Inr ''page-1''
   \<and> fst (searchForDuplicates filing_services plain_env (name sarah) (category sarah) empty_world) = Inr []
   \<and> fst (fileToNotion filing_services plain_env sarah empty_world) = Inr ''page-1''
   \<and> put_outcome filing_services = None
   \<and> fst (processNewMessage filing_services plain_env capture empty_world) = Inr ()
   \<and> map r_id (destination_records (snd (processNewMessage filing_services plain_env capture empty_world)))
       = [''page-1'']
   \<and> map r_database (destination_records (snd (processNewMessage filing_services plain_env capture empty_world)))
       = [''db-people'']
   \<and> threadContexts (state (snd (processNewMessage filing_services plain_env capture empty_world))) ''100.1''
       = Some \<lparr>originalMessage = ''Met coffee with Sarah'', classification = sarah,
               notionPageId = Some ''page-1'', potentialDuplicate = None, messages = [],
               createdAt = ''2024-01-15T10:00:00.000Z''\<rparr>"
proof -
  have c: "classify_outcome filing_services (ev_text capture) = Inr sarah"
    by (simp add: filing_services_def)
  have audit: "fst (createInboxLog filing_services (inbox_entry filing_services capture sarah)
             (NOTION_DB_INBOX_LOG plain_env) empty_world) = Inr ''page-1''"
    by (simp add: createInboxLog_def createPage_run filing_services_def plain_services_def)
  have s: "fst (searchForDuplicates filing_services plain_env (name sarah) (category sarah) empty_world) = Inr []"
    by (simp add: search_nothing filing_services_def plain_services_def)
  have weak: "list_all (\<lambda>d. \<not> sr_score d > 0.8) []"
    by simp
  have f: "fst (fileToNotion filing_services plain_env sarah empty_world) = Inr ''page-1''"
    using fileToNotion_is_createPage[of filing_services plain_env sarah]
    by (auto simp: createPage_run filing_services_def plain_services_def)
  have post: "post_outcome filing_services (ev_channel capture)
                 (formatConfirmation (category_string (category sarah)) (name sarah) (confidence sarah)
                    @ note_similar []) (Some (ev_ts capture)) = None"
    by (simp add: filing_services_def plain_services_def)
  have put: "put_outcome filing_services = None"
    by (simp add: filing_services_def plain_services_def)
  have run: "processNewMessage filing_services plain_env capture empty_world
             = (fst (processNewMessage filing_services plain_env capture empty_world),
                snd (processNewMessage filing_services plain_env capture empty_world))"
    by simp
  show ?thesis
    using confident_capture_files_once[OF c sarah_facts(1) audit s weak f post put run] c audit s f put sarah_facts(1)
    by (auto simp: sarah_facts page_kind_def getDatabaseId_def plain_env_def empty_world_def
        destination_records_def capture_def filing_services_def plain_services_def)
qed

subsection \<open>Thread replies\<close>

lemma sublist_dropWhile:
  assumes "t \<noteq> []" and "\<not> P (hd t)" and "sublist t s"
  shows "sublist t (dropWhile P s)"
  using assms(3)
proof (induction s)
  case Nil
  then show ?case by simp
next
  case (Cons x xs)
  show ?case
  proof (cases "P x")
    case True
    have "\<not> prefix t (x # xs)"
    proof
      assume "prefix t (x # xs)"
      then have "hd t = x"
        using assms(1) by (cases t) auto
      with True assms(2) show False by simp
    qed
    with Cons.prems have "sublist t xs"
      by (simp add: sublist_Cons_right)
    with Cons.IH True show ?thesis by simp
  next
    case False
    with Cons.prems show ?thesis by simp
  qed
qed

lemma sublist_trim:
  assumes "t \<noteq> []" and "\<not> isWhiteSpace (hd t)" and "\<not> isWhiteSpace (last t)"
  shows "sublist t (trim s) \<longleftrightarrow> sublist t s"
proof
  assume "sublist t (trim s)"
  moreover have "sublist (trim s) s"
  proof -
    have "prefix (rev (dropWhile isWhiteSpace (rev (dropWhile isWhiteSpace s)))) (dropWhile isWhiteSpace s)"
      by (metis suffix_dropWhile suffix_to_prefix rev_rev_ident)
    moreover have "suffix (dropWhile isWhiteSpace s) s"
      by (rule suffix_dropWhile)
    ultimately show ?thesis
      unfolding trim_def
      by (meson prefix_imp_sublist suffix_imp_sublist sublist_order.order_trans)
  qed
  ultimately show "sublist t s"
    by (rule sublist_order.order_trans)
next
  assume a: "sublist t s"
  have 1: "sublist t (dropWhile isWhiteSpace s)"
    using sublist_dropWhile[of t isWhiteSpace s] assms(1) assms(2) a by blast
  have "rev t \<noteq> []" "\<not> isWhiteSpace (hd (rev t))"
    using assms by (simp_all add: hd_rev)
  moreover have "sublist (rev t) (rev (dropWhile isWhiteSpace s))"
    using 1 by simp
  ultimately have "sublist (rev t) (dropWhile isWhiteSpace (rev (dropWhile isWhiteSpace s)))"
    using sublist_dropWhile[of "rev t" isWhiteSpace "rev (dropWhile isWhiteSpace s)"] by blast
  then have "sublist (rev (rev t)) (rev (dropWhile isWhiteSpace (rev (dropWhile isWhiteSpace s))))"
    by (simp only: sublist_rev)
  then show "sublist t (trim s)"
    by (simp add: trim_def)
qed

lemma keyword_in_reply:
  "(trim s = ''update'' \<or> includes_str (trim s) ''update'') \<longleftrightarrow> sublist ''update'' s"
  "(trim s = ''new'' \<or> includes_str (trim s) ''new'') \<longleftrightarrow> sublist ''new'' s"
proof -
  have u: "sublist ''update'' (trim s) \<longleftrightarrow> sublist ''update'' s"
    by (rule sublist_trim) (simp_all add: isWhiteSpace_def)
  have n: "sublist ''new'' (trim s) \<longleftrightarrow> sublist ''new'' s"
    by (rule sublist_trim) (simp_all add: isWhiteSpace_def)
  show "(trim s = ''update'' \<or> includes_str (trim s) ''update'') \<longleftrightarrow> sublist ''update'' s"
    using u by (auto simp: includes_sublist simp del: includes_str.simps)
  show "(trim s = ''new'' \<or> includes_str (trim s) ''new'') \<longleftrightarrow> sublist ''new'' s"
    using n by (auto simp: includes_sublist simp del: includes_str.simps)
qed

lemma handleThreadReply_run:
  assumes "threadContexts (state w) (thread_key (ev_thread_ts msg)) = Some ctx"
  shows "handleThreadReply sv env msg w =
     (let updatedMessages = messages ctx @ [\<lparr>role = user, content = ev_text msg, ts = ev_ts msg\<rparr>] in
      if potentialDuplicate ctx \<noteq> None \<and> sublist ''update'' (toLowerCase (ev_text msg))
      then handleDuplicateUpdate sv ctx (ev_thread_ts msg) (ev_channel msg) updatedMessages w
      else if potentialDuplicate ctx \<noteq> None \<and> sublist ''new'' (toLowerCase (ev_text msg))
      then handleDuplicateNew sv env ctx (ev_thread_ts msg) (ev_channel msg) updatedMessages w
      else
         try_catch
           (bind (detectThreadIntent_call sv (originalMessage ctx) (classification ctx)
                    (messages ctx) (ev_text msg))
              (on_intent sv env msg ctx updatedMessages))
           (\<lambda>error. postMessage sv (ev_channel msg)
                       ''I had trouble understanding that. Could you try rephrasing?'' (ev_thread_ts msg)) w)"
  unfolding handleThreadReply_def Let_def
  by (simp add: bind_apply this_state_def assms keyword_in_reply del: includes_str.simps)

lemma handleDuplicateUpdate_run:
  assumes \<open>potentialDuplicate ctx = Some duplicate\<close>
  shows \<open>handleDuplicateUpdate sv ctx thread chan msgs w =
     (let props = buildUpdateProperties sv (classification ctx);
          botResponse = ''Updated existing '' @ category_string (pd_category duplicate)
                          @ '': "'' @ pd_name duplicate @ ''"'';
          w1 = w\<lparr>requests := requests w @ [NotionUpdatePage (pd_pageId duplicate) props]\<rparr>
      in case update_outcome sv (pd_pageId duplicate) props of
           Some e \<Rightarrow> (Inl e, w1)
         | None \<Rightarrow>
             (let w2 = w\<lparr>requests := requests w @ [NotionUpdatePage (pd_pageId duplicate) props,
                                                   SlackPostMessage chan botResponse thread],
                         patched := patched w @ [(pd_pageId duplicate, props)]\<rparr>
              in case post_outcome sv chan botResponse thread of
                   Some e \<Rightarrow> (Inl e, w2)
                 | None \<Rightarrow>
                     put_context sv (thread_key thread)
                       (ctx\<lparr>notionPageId := Some (pd_pageId duplicate),
                            potentialDuplicate := None,
                            messages := msgs @ [assistant_message sv botResponse]\<rparr>) w2))\<close>
  unfolding handleDuplicateUpdate_def Let_def
  apply (cases w)
  apply (simp add: assms bind_apply updatePage_run postMessage_run split: option.splits)
  done

lemma same_category_run:
  assumes \<open>intent i = correct_category\<close>
    and \<open>d_newCategory (details i) = Some (category (classification ctx))\<close>
  shows \<open>on_intent sv env msg ctx updatedMessages i =
           postMessage sv (ev_channel msg)
             (''Already categorized as '' @ category_string (category (classification ctx)) @ ''.'')
             (ev_thread_ts msg)\<close>
  by (simp add: on_intent_def Let_def assms respond_def)

text \<open>
  Claim C4, as stated: a reply whose text contains ``update'' (in any letter case), in a thread
  whose context has a pending duplicate, patches the existing record, clears the pending
  duplicate and sets the record id of the context to the existing record's id, without a call
  to the thread-intent oracle. The statement holds only when the store accepts the patch: here
  the store refuses it, the error leaves \<^verbatim>\<open>handleThreadReply\<close> (the call stands outside its
  \<^verbatim>\<open>try\<close>), nothing is patched, and the context keeps its pending duplicate and no record id.
\<close>

theorem duplicate_update_store_failure:
  \<open>fst (handleThreadReply patch_down plain_env (reply ''update'') (world_with pending_context))
     = Inl (Error ''Notion API error: 500 - down'')
   \<and> patched (snd (handleThreadReply patch_down plain_env (reply ''update'') (world_with pending_context))) = []
   \<and> threadContexts (state (snd (handleThreadReply patch_down plain_env (reply ''update'')
        (world_with pending_context)))) ''100.1'' = Some pending_context
   \<and> potentialDuplicate pending_context \<noteq> None
   \<and> notionPageId pending_context = None\<close>
proof -
  have ctx: \<open>threadContexts (state (world_with pending_context))
               (thread_key (ev_thread_ts (reply ''update''))) = Some pending_context\<close>
    by (simp add: world_with_def reply_def thread_key_def)
  have dup: \<open>potentialDuplicate pending_context =
               Some \<lparr>pd_pageId = ''page-7'', pd_name = ''Sarah Connor'', pd_category = person, pd_score = 0.9\<rparr>\<close>
    by (simp add: pending_context_def)
  have upd: \<open>sublist ''update'' (toLowerCase (ev_text (reply ''update'')))\<close>
    by (simp add: reply_def toLowerCase_def toLowerCase_char_def flip: includes_sublist)
  have out: \<open>update_outcome patch_down p q = Some (Error ''Notion API error: 500 - down'')\<close> for p q
    by (simp add: patch_down_def plain_services_def)
  have run: \<open>handleThreadReply patch_down plain_env (reply ''update'') (world_with pending_context)
       = (Inl (Error ''Notion API error: 500 - down''),
          (world_with pending_context)\<lparr>requests := requests (world_with pending_context) @
             [NotionUpdatePage ''page-7'' (buildUpdateProperties patch_down (classification pending_context))]\<rparr>)\<close>
    by (simp add: handleThreadReply_run[OF ctx] dup upd Let_def handleDuplicateUpdate_run[OF dup] out)
  show ?thesis
    unfolding run by (simp add: world_with_def) (simp add: pending_context_def)
qed

text \<open>
  Claim C4, amended: for a reply containing ``update'' in a thread with a pending duplicate,
  the thread-intent oracle is never called and no record is created, whatever the services
  answer. When the store accepts the patch, the chat service accepts the confirmation and the
  storage write succeeds, the handler returns normally, the existing record (the stored page
  id) is patched with the properties built from the classification, and the stored context is
  the old one with the record id set to the duplicate's page id, the pending duplicate
  cleared, and the user's reply and the confirmation appended to its messages.
\<close>

theorem duplicate_update_fast_path:
  assumes ctx: \<open>threadContexts (state w) (thread_key (ev_thread_ts msg)) = Some ctx\<close>
    and dup: \<open>potentialDuplicate ctx = Some duplicate\<close>
    and upd: \<open>sublist ''update'' (toLowerCase (ev_text msg))\<close>
    and run: \<open>handleThreadReply sv env msg w = (r, w')\<close>
  shows \<open>filter is_intent_call (requests w') = filter is_intent_call (requests w)
       \<and> created w' = created w
       \<and> (update_outcome sv (pd_pageId duplicate) (buildUpdateProperties sv (classification ctx)) = None
          \<and> post_outcome sv (ev_channel msg)
               (''Updated existing '' @ category_string (pd_category duplicate)
                  @ '': "'' @ pd_name duplicate @ ''"'') (ev_thread_ts msg) = None
          \<and> put_outcome sv = None
          \<longrightarrow> r = Inr ()
            \<and> patched w' = patched w @ [(pd_pageId duplicate, buildUpdateProperties sv (classification ctx))]
            \<and> threadContexts (state w') =
                (threadContexts (state w))(thread_key (ev_thread_ts msg) \<mapsto>
                   ctx\<lparr>notionPageId := Some (pd_pageId duplicate),
                       potentialDuplicate := None,
                       messages := messages ctx @
                         [\<lparr>role = user, content = ev_text msg, ts = ev_ts msg\<rparr>,
                          \<lparr>role = assistant,
                           content = ''Updated existing '' @ category_string (pd_category duplicate)
                                       @ '': "'' @ pd_name duplicate @ ''"'',
                           ts = now_ms sv\<rparr>]\<rparr>)
            \<and> storage w' = Some (state w'))\<close>
proof -
  have eq: \<open>handleDuplicateUpdate sv ctx (ev_thread_ts msg) (ev_channel msg)
              (messages ctx @ [\<lparr>role = user, content = ev_text msg, ts = ev_ts msg\<rparr>]) w = (r, w')\<close>
    using run by (simp add: handleThreadReply_run[OF ctx] dup upd Let_def)
  show ?thesis
    using eq
    apply (cases w)
    apply (auto simp add: handleDuplicateUpdate_run[OF dup] Let_def put_context_run
        assistant_message_def is_intent_call_def split: option.splits)
    done
qed

theorem duplicate_update_fast_path_witness:
  \<open>case handleThreadReply plain_services plain_env (reply ''Update it please'') (world_with pending_context) of
     (r, w') \<Rightarrow>
       r = Inr ()
       \<and> filter is_intent_call (requests w') = []
       \<and> created w' = []
       \<and> patched w' = [(''page-7'', buildUpdateProperties plain_services sarah)]
       \<and> threadContexts (state w') =
           [''100.1'' \<mapsto>
              pending_context\<lparr>notionPageId := Some ''page-7'', potentialDuplicate := None,
                messages := [\<lparr>role = user, content = ''Update it please'', ts = ''100.2''\<rparr>,
                             \<lparr>role = assistant, content = ''Updated existing person: "Sarah Connor"'',
                              ts = ''1705312800000''\<rparr>]\<rparr>]
       \<and> storage w' = Some (state w')\<close>
proof -
  obtain r w' where run: \<open>handleThreadReply plain_services plain_env (reply ''Update it please'')
                            (world_with pending_context) = (r, w')\<close>
    by (cases \<open>handleThreadReply plain_services plain_env (reply ''Update it please'')
                 (world_with pending_context)\<close>) 
  have ctx: \<open>threadContexts (state (world_with pending_context))
               (thread_key (ev_thread_ts (reply ''Update it please''))) = Some pending_context\<close>
    by (simp add: world_with_def reply_def thread_key_def)
  have dup: \<open>potentialDuplicate pending_context =
               Some \<lparr>pd_pageId = ''page-7'', pd_name = ''Sarah Connor'', pd_category = person, pd_score = 0.9\<rparr>\<close>
    by (simp add: pending_context_def)
  have upd: \<open>sublist ''update'' (toLowerCase (ev_text (reply ''Update it please'')))\<close>
    by (simp add: reply_def toLowerCase_def toLowerCase_char_def flip: includes_sublist)
  have outs: \<open>update_outcome plain_services p q = None\<close> \<open>post_outcome plain_services a b c = None\<close>
             \<open>put_outcome plain_services = None\<close> \<open>now_ms plain_services = ''1705312800000''\<close> for p q a b c
    by (simp_all add: plain_services_def)
  have cls: \<open>classification pending_context = sarah\<close> \<open>messages pending_context = []\<close>
    by (simp_all add: pending_context_def)
  have w: \<open>requests (world_with pending_context) = []\<close> \<open>created (world_with pending_context) = []\<close>
          \<open>patched (world_with pending_context) = []\<close>
          \<open>threadContexts (state (world_with pending_context)) = [''100.1'' \<mapsto> pending_context]\<close>
    by (simp_all add: world_with_def)
  have m: \<open>thread_key (ev_thread_ts (reply t)) = ''100.1''\<close> \<open>ev_text (reply t) = t\<close>
          \<open>ev_ts (reply t) = ''100.2''\<close> for t
    by (simp_all add: reply_def thread_key_def)
  show ?thesis
    unfolding run
    using duplicate_update_fast_path[OF ctx dup upd run]
    by (simp add: outs cls w m category_string_def)
qed

text \<open>
  Claim C6: a reply that the oracle reads as \<^verbatim>\<open>correct_category\<close> with the category the
  classification already has files nothing: no record is created or patched, the state in
  memory and in storage is untouched (so the context keeps its classification and its record
  id), and the one message posted says that the entry is already categorized as that category.
  Only if that post is refused does the handler post its request to rephrase.
\<close>

theorem same_category_correction:
  assumes ctx: \<open>threadContexts (state w) (thread_key (ev_thread_ts msg)) = Some ctx\<close>
    and slow: \<open>potentialDuplicate ctx = None
               \<or> \<not> (sublist ''update'' (toLowerCase (ev_text msg)) \<or> sublist ''new'' (toLowerCase (ev_text msg)))\<close>
    and out: \<open>threadIntent_outcome sv (originalMessage ctx) (classification ctx) (messages ctx) (ev_text msg)
                = Inr i\<close>
    and int: \<open>intent i = correct_category\<close>
    and same: \<open>d_newCategory (details i) = Some (category (classification ctx))\<close>
    and run: \<open>handleThreadReply sv env msg w = (r, w')\<close>
  shows \<open>state w' = state w \<and> storage w' = storage w \<and> created w' = created w \<and> patched w' = patched w
       \<and> requests w' = requests w @
           [OracleThreadIntent (originalMessage ctx) (classification ctx) (messages ctx) (ev_text msg),
            SlackPostMessage (ev_channel msg)
              (''Already categorized as '' @ category_string (category (classification ctx)) @ ''.'')
              (ev_thread_ts msg)]
           @ (case post_outcome sv (ev_channel msg)
                     (''Already categorized as '' @ category_string (category (classification ctx)) @ ''.'')
                     (ev_thread_ts msg) of
                None \<Rightarrow> []
              | Some e \<Rightarrow> [SlackPostMessage (ev_channel msg)
                             ''I had trouble understanding that. Could you try rephrasing?''
                             (ev_thread_ts msg)])\<close>
proof -
  have eq: \<open>try_catch
           (bind (detectThreadIntent_call sv (originalMessage ctx) (classification ctx)
                    (messages ctx) (ev_text msg))
              (on_intent sv env msg ctx (messages ctx @ [\<lparr>role = user, content = ev_text msg, ts = ev_ts msg\<rparr>])))
           (\<lambda>error. postMessage sv (ev_channel msg)
                       ''I had trouble understanding that. Could you try rephrasing?'' (ev_thread_ts msg)) w
           = (r, w')\<close>
    using run slow by (auto simp add: handleThreadReply_run[OF ctx] Let_def)
  show ?thesis
    using eq
    apply (cases w)
    apply (auto simp add: try_catch_apply bind_apply detectThreadIntent_call_run out
        same_category_run[OF int same] postMessage_run split: option.splits)
    done
qed

theorem same_category_correction_witness:
  \<open>case handleThreadReply says_person plain_env (reply ''this is a person'') (world_with filed_context) of
     (r, w') \<Rightarrow>
       state w' = state (world_with filed_context)
       \<and> storage w' = storage (world_with filed_context)
       \<and> created w' = [] \<and> patched w' = []
       \<and> requests w' =
           [OracleThreadIntent ''Met coffee with Sarah'' sarah [] ''this is a person'',
            SlackPostMessage ''C1'' ''Already categorized as person.'' (Some ''100.1'')]\<close>
proof -
  obtain r w' where run: \<open>handleThreadReply says_person plain_env (reply ''this is a person'')
                            (world_with filed_context) = (r, w')\<close>
    by (cases \<open>handleThreadReply says_person plain_env (reply ''this is a person'')
                 (world_with filed_context)\<close>)
  have ctx: \<open>threadContexts (state (world_with filed_context))
               (thread_key (ev_thread_ts (reply ''this is a person''))) = Some filed_context\<close>
    by (simp add: world_with_def reply_def thread_key_def)
  have slow: \<open>potentialDuplicate filed_context = None
               \<or> \<not> (sublist ''update'' (toLowerCase (ev_text (reply ''this is a person'')))
                    \<or> sublist ''new'' (toLowerCase (ev_text (reply ''this is a person''))))\<close>
    by (simp add: filed_context_def)
  have out: \<open>threadIntent_outcome says_person (originalMessage filed_context) (classification filed_context)
               (messages filed_context) (ev_text (reply ''this is a person''))
             = Inr \<lparr>intent = correct_category, details = no_details\<lparr>d_newCategory := Some person\<rparr>,
                    i_confidence = 0.9\<rparr>\<close>
    by (simp add: says_person_def)
  have same: \<open>d_newCategory (details \<lparr>intent = correct_category,
                 details = no_details\<lparr>d_newCategory := Some person\<rparr>, i_confidence = 0.9\<rparr>)
               = Some (category (classification filed_context))\<close>
    by (simp add: filed_context_def sarah_def)
  have facts: \<open>post_outcome says_person a b c = None\<close>
      \<open>originalMessage filed_context = ''Met coffee with Sarah''\<close>
      \<open>classification filed_context = sarah\<close> \<open>messages filed_context = []\<close>
      \<open>category sarah = person\<close>
      \<open>requests (world_with filed_context) = []\<close> \<open>created (world_with filed_context) = []\<close>
      \<open>patched (world_with filed_context) = []\<close>
      \<open>ev_text (reply t) = t\<close> \<open>ev_channel (reply t) = ''C1''\<close> \<open>ev_thread_ts (reply t) = Some ''100.1''\<close>
    for a b c t
    by (simp_all add: says_person_def plain_services_def filed_context_def sarah_def world_with_def reply_def)
  show ?thesis
    unfolding run
    using same_category_correction[OF ctx slow out _ same run]
    by (simp add: facts category_string_def)
qed

text \<open>
  Claim C5: every branch taken after intent detection, the query apart, appends the user's
  reply and the response to the messages of the context and persists it. The branches that
  file or patch do, and the comment above the switch announces it for the response; the
  branches that only answer (same category, entry not filed yet, related entry without a
  name) post their response and store nothing. Here the reply is read as a correction to the
  category the entry already has: the response is posted, and the messages of the context, in
  memory and in storage, are still empty.
\<close>

theorem same_category_reply_not_recorded:
  \<open>handleThreadReply says_person plain_env (reply ''this is a person'') (world_with filed_context)
     = (Inr (),
        (world_with filed_context)
          \<lparr>requests := [OracleThreadIntent ''Met coffee with Sarah'' sarah [] ''this is a person'',
                        SlackPostMessage ''C1'' ''Already categorized as person.'' (Some ''100.1'')]\<rparr>)
   \<and> map_option messages (threadContexts (state (snd (handleThreadReply says_person plain_env
        (reply ''this is a person'') (world_with filed_context)))) ''100.1'') = Some []
   \<and> map_option (\<lambda>st. map_option messages (threadContexts st ''100.1''))
        (storage (snd (handleThreadReply says_person plain_env
        (reply ''this is a person'') (world_with filed_context)))) = Some (Some [])\<close>
proof -
  have ctx: \<open>threadContexts (state (world_with filed_context))
               (thread_key (ev_thread_ts (reply ''this is a person''))) = Some filed_context\<close>
    by (simp add: world_with_def reply_def thread_key_def)
  have facts: \<open>post_outcome says_person a b c = None\<close>
      \<open>originalMessage filed_context = ''Met coffee with Sarah''\<close>
      \<open>classification filed_context = sarah\<close> \<open>messages filed_context = []\<close>
      \<open>potentialDuplicate filed_context = None\<close>
      \<open>category sarah = person\<close>
      \<open>requests (world_with filed_context) = []\<close>
      \<open>ev_text (reply t) = t\<close> \<open>ev_channel (reply t) = ''C1''\<close> \<open>ev_thread_ts (reply t) = Some ''100.1''\<close>
      \<open>threadIntent_outcome says_person o1 o2 o3 o4
             = Inr \<lparr>intent = correct_category, details = no_details\<lparr>d_newCategory := Some person\<rparr>,
                    i_confidence = 0.9\<rparr>\<close>
    for a b c t o1 o2 o3 o4
    by (simp_all add: says_person_def plain_services_def filed_context_def sarah_def world_with_def reply_def)
  have run: \<open>handleThreadReply says_person plain_env (reply ''this is a person'') (world_with filed_context)
     = (Inr (),
        (world_with filed_context)
          \<lparr>requests := [OracleThreadIntent ''Met coffee with Sarah'' sarah [] ''this is a person'',
                        SlackPostMessage ''C1'' ''Already categorized as person.'' (Some ''100.1'')]\<rparr>)\<close>
    by (simp add: handleThreadReply_run[OF ctx] Let_def facts try_catch_apply bind_apply
          detectThreadIntent_call_run same_category_run postMessage_run category_string_def)
  show ?thesis
    unfolding run by (simp add: world_with_def filed_context_def)
qed

end
